theory Spec2Isabelle
  imports Complex_Main "HOL-Library.Finite_Map" "HOL-Library.Multiset" "HOL-Library.Sublist"
begin

section \<open>Values, records and exceptions\<close>

text \<open>
  The program (\<^verbatim>\<open>app.py\<close>) handles what \<^verbatim>\<open>response.json()\<close> returns: JSON values
  as Python objects. A JSON object is a Python \<^verbatim>\<open>dict\<close> with string keys, modelled as a
  finite map, so that equality of two models is Python's \<^verbatim>\<open>==\<close> on the dicts (the order
  of the keys does not count). Python compares \<^verbatim>\<open>bool\<close>, \<^verbatim>\<open>int\<close> and \<^verbatim>\<open>float\<close> by their
  numeric value (\<^verbatim>\<open>True == 1 == 1.0\<close>), so the three are one constructor \<open>JNum\<close>, and a
  float is the real number it denotes (NaN and the infinities are not modelled; the
  program itself does no arithmetic on floats, it only compares and stores them).
\<close>

datatype json =
    JNull
  | JNum real
  | JStr string
  | JArr "json list"
  | JObj "(string, json) fmap"

type_synonym dict = "(string, json) fmap"

text \<open>The exceptions (all subclasses of Python's \<^verbatim>\<open>Exception\<close>) the code can raise.\<close>

datatype exn =
    KeyError
  | ValueError
  | TypeError
  | AttributeError
  | RequestException
  | JSONDecodeError

text \<open>\<^verbatim>\<open>d[k]\<close> on a dict: the value, or \<^verbatim>\<open>KeyError\<close>.\<close>

definition getitem :: "dict \<Rightarrow> string \<Rightarrow> exn + json" where
  "getitem d k = (case fmlookup d k of None \<Rightarrow> Inl KeyError | Some v \<Rightarrow> Inr v)"

text \<open>\<^verbatim>\<open>Point = namedtuple('Point', ['latitude', 'longitude'])\<close>; the fields hold whatever
  the museum record holds.\<close>

record point =
  latitude :: json
  longitude :: json

section \<open>Library functions the program calls\<close>

text \<open>
  \<^verbatim>\<open>geopy.distance.geodesic(p, q).kilometers\<close>, \<^verbatim>\<open>str.lower\<close>, \<^verbatim>\<open>int(s)\<close> and \<^verbatim>\<open>float(s)\<close>
  are not code of this program. They are parameters of the model: every theorem below
  holds for all of them. A call that raises returns \<open>Inl\<close> or \<open>None\<close>
  (\<^verbatim>\<open>ValueError\<close> for \<^verbatim>\<open>int\<close> and \<^verbatim>\<open>float\<close>).
\<close>

record pylib =
  geodesic_km :: "json \<times> json \<Rightarrow> json \<times> json \<Rightarrow> exn + real"
  str_lower :: "string \<Rightarrow> string"
  int_of_str :: "string \<Rightarrow> int option"
  float_of_str :: "string \<Rightarrow> real option"

section \<open>The trip sequencer\<close>

text \<open>
  \<^verbatim>\<open>def heuristic(a, b):
    return geodesic((a.latitude, a.longitude), (b.latitude, b.longitude)).kilometers\<close>
\<close>

definition heuristic :: "pylib \<Rightarrow> point \<Rightarrow> point \<Rightarrow> exn + real" where
  "heuristic lib a b = geodesic_km lib (latitude a, longitude a) (latitude b, longitude b)"

text \<open>\<^verbatim>\<open>Point(museum['latitude'], museum['longitude'])\<close>: either subscript may raise
  \<^verbatim>\<open>KeyError\<close>, the latitude first.\<close>

definition museum_point :: "dict \<Rightarrow> exn + point" where
  "museum_point m =
     (case getitem m ''latitude'' of
        Inl e \<Rightarrow> Inl e
      | Inr la \<Rightarrow>
          (case getitem m ''longitude'' of
             Inl e \<Rightarrow> Inl e
           | Inr lo \<Rightarrow> Inr \<lparr>latitude = la, longitude = lo\<rparr>))"

text \<open>The key of \<^verbatim>\<open>min\<close> on line 117:
  \<^verbatim>\<open>lambda museum: heuristic(current_location, Point(museum['latitude'], museum['longitude']))\<close>.\<close>

definition museum_key :: "pylib \<Rightarrow> point \<Rightarrow> dict \<Rightarrow> exn + real" where
  "museum_key lib cur m =
     (case museum_point m of Inl e \<Rightarrow> Inl e | Inr p \<Rightarrow> heuristic lib cur p)"

text \<open>
  Python's \<^verbatim>\<open>min(xs, key=f)\<close>: the key of every element is computed once, in order; the
  running minimum is replaced only by a strictly smaller key; an exception of the key
  function leaves \<^verbatim>\<open>min\<close>; the empty list raises \<^verbatim>\<open>ValueError\<close>.
\<close>

fun min_loop :: "('a \<Rightarrow> exn + real) \<Rightarrow> 'a \<Rightarrow> real \<Rightarrow> 'a list \<Rightarrow> exn + 'a" where
  "min_loop key best bestval [] = Inr best"
| "min_loop key best bestval (x # xs) =
     (case key x of
        Inl e \<Rightarrow> Inl e
      | Inr v \<Rightarrow> if v < bestval then min_loop key x v xs else min_loop key best bestval xs)"

definition py_min :: "('a \<Rightarrow> exn + real) \<Rightarrow> 'a list \<Rightarrow> exn + 'a" where
  "py_min key xs =
     (case xs of
        [] \<Rightarrow> Inl ValueError
      | x # rest \<Rightarrow> (case key x of Inl e \<Rightarrow> Inl e | Inr v \<Rightarrow> min_loop key x v rest))"

text \<open>
  The museums are dict objects, and the sequencer mutates them in place, so the model
  has a store: an object is an address, \<open>heap\<close> gives the dict at each address, and the
  lists \<^verbatim>\<open>museums\<close> and \<^verbatim>\<open>trip_plan\<close> hold addresses. The same object may stand in
  the list twice.

  \<^verbatim>\<open>museums.remove(x)\<close> deletes the first element that is \<^verbatim>\<open>x\<close> or equals \<^verbatim>\<open>x\<close> (for dicts:
  same keys with equal values), and raises \<^verbatim>\<open>ValueError\<close> when there is none.
\<close>

type_synonym heap = "nat \<Rightarrow> dict"

fun list_remove :: "heap \<Rightarrow> nat list \<Rightarrow> nat \<Rightarrow> exn + nat list" where
  "list_remove h [] x = Inl ValueError"
| "list_remove h (y # ys) x =
     (if y = x \<or> h y = h x then Inr ys
      else (case list_remove h ys x of Inl e \<Rightarrow> Inl e | Inr zs \<Rightarrow> Inr (y # zs)))"

text \<open>
  The body of the \<^verbatim>\<open>while\<close> loop, lines 117 to 121:
  \<^verbatim>\<open>
  closest_museum = min(museums, key=lambda museum: heuristic(current_location, Point(...)))
  closest_museum['distance'] = heuristic(current_location, Point(closest_museum['latitude'], closest_museum['longitude']))
  trip_plan.append(closest_museum)
  current_location = Point(closest_museum['latitude'], closest_museum['longitude'])
  museums.remove(closest_museum)
  \<close>
  The state is the store, the current location, the working list and the trip plan.
\<close>

type_synonym astar_state = "heap \<times> point \<times> nat list \<times> nat list"

definition a_star_body :: "pylib \<Rightarrow> astar_state \<Rightarrow> exn + astar_state" where
  "a_star_body lib s =
     (case s of (h, current_location, museums, trip_plan) \<Rightarrow>
        (case py_min (\<lambda>museum. museum_key lib current_location (h museum)) museums of
           Inl e \<Rightarrow> Inl e
         | Inr closest_museum \<Rightarrow>
             (case museum_key lib current_location (h closest_museum) of
                Inl e \<Rightarrow> Inl e
              | Inr d \<Rightarrow>
                  (let h' = h(closest_museum := fmupd ''distance'' (JNum d) (h closest_museum));
                       trip_plan' = trip_plan @ [closest_museum]
                   in (case museum_point (h' closest_museum) of
                         Inl e \<Rightarrow> Inl e
                       | Inr current_location' \<Rightarrow>
                           (case list_remove h' museums closest_museum of
                              Inl e \<Rightarrow> Inl e
                            | Inr museums' \<Rightarrow>
                                Inr (h', current_location', museums', trip_plan')))))))"

lemma list_remove_length:
  "list_remove h xs x = Inr ys \<Longrightarrow> Suc (length ys) = length xs"
  by (induction xs arbitrary: ys) (auto split: if_splits sum.splits)

lemma a_star_body_length:
  "a_star_body lib (h, cur, ms, plan) = Inr (h', cur', ms', plan') \<Longrightarrow> length ms' < length ms"
  by (auto simp: a_star_body_def Let_def split: sum.splits dest!: list_remove_length)

text \<open>
  \<^verbatim>\<open>while museums: ...\<close> followed by \<^verbatim>\<open>return trip_plan\<close>. The model returns the store
  and the working list along with the plan, since the caller's list and dicts are
  the ones mutated.
\<close>

function a_star_loop :: "pylib \<Rightarrow> astar_state \<Rightarrow> exn + astar_state" where
  "a_star_loop lib (h, cur, ms, plan) =
     (if ms = [] then Inr (h, cur, ms, plan)
      else (case a_star_body lib (h, cur, ms, plan) of
              Inl e \<Rightarrow> Inl e
            | Inr s' \<Rightarrow> a_star_loop lib s'))"
  by pat_completeness auto
termination
proof (relation "measure (\<lambda>(lib, h, cur, ms, plan). length ms)")
  show "wf (measure (\<lambda>(lib, h, cur, ms, plan). length ms))" by simp
next
  fix lib :: pylib and h cur ms plan s'
  assume "ms \<noteq> []" and "a_star_body lib (h, cur, ms, plan) = Inr s'"
  then show "((lib, s'), lib, h, cur, ms, plan) \<in> measure (\<lambda>(lib, h, cur, ms, plan). length ms)"
    by (cases s') (auto dest: a_star_body_length)
qed

declare a_star_loop.simps [simp del]

definition a_star_search :: "pylib \<Rightarrow> heap \<Rightarrow> point \<Rightarrow> nat list \<Rightarrow> exn + (heap \<times> nat list \<times> nat list)" where
  "a_star_search lib h start museums =
     (case a_star_loop lib (h, start, museums, []) of
        Inl e \<Rightarrow> Inl e
      | Inr (h', cur, museums', trip_plan) \<Rightarrow> Inr (h', trip_plan, museums'))"


section \<open>The network\<close>

text \<open>
  \<^verbatim>\<open>requests.get(url)\<close> asks the outside world. The world is a parameter of the model:
  a function from the requests made so far and the URL to what the call does,
  an exception (no connection, a timeout) or a response. The state threaded through
  the program is the log of the URLs requested, in order.
  A response carries its status code and what \<^verbatim>\<open>response.json()\<close> does: the parsed
  body, or the exception of a body that is not JSON.
\<close>

record response =
  status_code :: int
  json_body :: "exn + json"

type_synonym world = "string list"
type_synonym network = "world \<Rightarrow> string \<Rightarrow> exn + response"

definition requests_get :: "network \<Rightarrow> string \<Rightarrow> world \<Rightarrow> (exn + response) \<times> world" where
  "requests_get net url w = (net w url, w @ [url])"

section \<open>The museum data client\<close>

text \<open>\<^verbatim>\<open>f"https://historyproject.somee.com/api/Museums/city/{city_name}"\<close>\<close>

definition museum_url :: "string \<Rightarrow> string" where
  "museum_url city_name = ''https://historyproject.somee.com/api/Museums/city/'' @ city_name"

text \<open>\<^verbatim>\<open>{key: value for key, value in museum.items() if key != 'id'}\<close>: a new dict;
  only a dict has \<^verbatim>\<open>items\<close>.\<close>

definition strip_id :: "json \<Rightarrow> exn + dict" where
  "strip_id museum =
     (case museum of JObj d \<Rightarrow> Inr (fmdrop ''id'' d) | _ \<Rightarrow> Inl AttributeError)"

text \<open>A list comprehension \<^verbatim>\<open>[f(x) for x in xs]\<close>: in order, up to the first exception.\<close>

fun comprehension :: "('a \<Rightarrow> exn + 'b) \<Rightarrow> 'a list \<Rightarrow> exn + 'b list" where
  "comprehension f [] = Inr []"
| "comprehension f (x # xs) =
     (case f x of
        Inl e \<Rightarrow> Inl e
      | Inr y \<Rightarrow> (case comprehension f xs of Inl e \<Rightarrow> Inl e | Inr ys \<Rightarrow> Inr (y # ys)))"

text \<open>
  \<^verbatim>\<open>[{...} for museum in museum_data]\<close> over whatever the body parsed to. A list gives
  its elements. A dict gives its keys and a string its characters, all of them strings,
  so the first \<^verbatim>\<open>museum.items()\<close> raises \<^verbatim>\<open>AttributeError\<close> unless there is none.
  \<^verbatim>\<open>None\<close> and numbers are not iterable.
\<close>

definition cleaned :: "json \<Rightarrow> exn + dict list" where
  "cleaned museum_data =
     (case museum_data of
        JArr xs \<Rightarrow> comprehension strip_id xs
      | JObj d \<Rightarrow> if d = fmempty then Inr [] else Inl AttributeError
      | JStr s \<Rightarrow> if s = [] then Inr [] else Inl AttributeError
      | JNull \<Rightarrow> Inl TypeError
      | JNum _ \<Rightarrow> Inl TypeError)"

text \<open>The dict \<^verbatim>\<open>{"city": city_name, "data": cleaned_museum_data}\<close> that
  \<^verbatim>\<open>fetch_museum_data\<close> returns; \<^verbatim>\<open>None\<close> is the other return value.\<close>

record museums_dict =
  city :: string
  data :: "dict list"

definition fetch_museum_data :: "network \<Rightarrow> string \<Rightarrow> world \<Rightarrow> (exn + museums_dict option) \<times> world" where
  "fetch_museum_data net city_name w =
     (case requests_get net (museum_url city_name) w of
        (Inl e, w') \<Rightarrow> (Inl e, w')
      | (Inr resp, w') \<Rightarrow>
          if status_code resp = 200 then
            (case json_body resp of
               Inl e \<Rightarrow> (Inl e, w')
             | Inr museum_data \<Rightarrow>
                 (case cleaned museum_data of
                    Inl e \<Rightarrow> (Inl e, w')
                  | Inr cleaned_museum_data \<Rightarrow>
                      (Inr (Some \<lparr>city = city_name, data = cleaned_museum_data\<rparr>), w')))
          else (Inr None, w'))"

section \<open>The aggregator\<close>

text \<open>
  \<^verbatim>\<open>
  all_museums = []
  for city in cities:
      museums_dict = fetch_museum_data(city)
      if museums_dict and 'data' in museums_dict:
          for museum in museums_dict['data']:
              museum['city'] = city
          all_museums.extend(museums_dict['data'])
  return all_museums
  \<close>
  A returned dict has the two keys \<^verbatim>\<open>city\<close> and \<^verbatim>\<open>data\<close>, so the test is true exactly
  when the client did not return \<^verbatim>\<open>None\<close>. The dicts in \<^verbatim>\<open>data\<close> are new objects made by
  the comprehension, one per record, so the assignment changes no other record.
\<close>

fun fetch_loop :: "network \<Rightarrow> string list \<Rightarrow> dict list \<Rightarrow> world \<Rightarrow> (exn + dict list) \<times> world" where
  "fetch_loop net [] all_museums w = (Inr all_museums, w)"
| "fetch_loop net (c # cities) all_museums w =
     (case fetch_museum_data net c w of
        (Inl e, w') \<Rightarrow> (Inl e, w')
      | (Inr None, w') \<Rightarrow> fetch_loop net cities all_museums w'
      | (Inr (Some md), w') \<Rightarrow>
          fetch_loop net cities (all_museums @ map (fmupd ''city'' (JStr c)) (data md)) w')"

definition fetch_museums_for_cities :: "network \<Rightarrow> string list \<Rightarrow> world \<Rightarrow> (exn + dict list) \<times> world" where
  "fetch_museums_for_cities net cities w = fetch_loop net cities [] w"

section \<open>The geolocation client\<close>

text \<open>\<^verbatim>\<open>s.split(',')\<close>: the pieces between the separators, empty ones kept.\<close>

fun split_on :: "char \<Rightarrow> string \<Rightarrow> string list" where
  "split_on c [] = [[]]"
| "split_on c (x # xs) =
     (if x = c then [] # split_on c xs
      else (case split_on c xs of [] \<Rightarrow> [[x]] | p # ps \<Rightarrow> (x # p) # ps))"

text \<open>\<^verbatim>\<open>'loc' in data\<close>: a key of a dict, an element of a list, a substring of a string;
  \<^verbatim>\<open>TypeError\<close> on \<^verbatim>\<open>None\<close> and on a number.\<close>

definition contains_loc :: "json \<Rightarrow> exn + bool" where
  "contains_loc d =
     (case d of
        JObj m \<Rightarrow> Inr (fmlookup m ''loc'' \<noteq> None)
      | JArr xs \<Rightarrow> Inr (JStr ''loc'' \<in> set xs)
      | JStr s \<Rightarrow> Inr (sublist ''loc'' s)
      | JNull \<Rightarrow> Inl TypeError
      | JNum _ \<Rightarrow> Inl TypeError)"

text \<open>\<^verbatim>\<open>data['loc']\<close>: a dict's value; a list and a string take integer indices only.\<close>

definition subscript_loc :: "json \<Rightarrow> exn + json" where
  "subscript_loc d = (case d of JObj m \<Rightarrow> getitem m ''loc'' | _ \<Rightarrow> Inl TypeError)"

text \<open>\<^verbatim>\<open>latitude, longitude = data['loc'].split(',')\<close>: only a string has \<^verbatim>\<open>split\<close>, and
  unpacking into two names needs exactly two pieces.\<close>

definition split_loc :: "json \<Rightarrow> exn + string \<times> string" where
  "split_loc v =
     (case v of
        JStr s \<Rightarrow> (case split_on CHR '','' s of [la, lo] \<Rightarrow> Inr (la, lo) | _ \<Rightarrow> Inl ValueError)
      | _ \<Rightarrow> Inl AttributeError)"

text \<open>\<^verbatim>\<open>return float(latitude), float(longitude)\<close>\<close>

definition parse_floats :: "pylib \<Rightarrow> string \<times> string \<Rightarrow> exn + real \<times> real" where
  "parse_floats lib p =
     (case float_of_str lib (fst p) of
        None \<Rightarrow> Inl ValueError
      | Some la \<Rightarrow>
          (case float_of_str lib (snd p) of None \<Rightarrow> Inl ValueError | Some lo \<Rightarrow> Inr (la, lo)))"

text \<open>The \<^verbatim>\<open>try\<close> block of \<^verbatim>\<open>get_current_location\<close>, lines 61 to 69, from the parsed body on.\<close>

definition location_of_data :: "pylib \<Rightarrow> json \<Rightarrow> exn + real \<times> real" where
  "location_of_data lib d =
     (case contains_loc d of
        Inl e \<Rightarrow> Inl e
      | Inr False \<Rightarrow> Inl ValueError
      | Inr True \<Rightarrow>
          (case subscript_loc d of
             Inl e \<Rightarrow> Inl e
           | Inr v \<Rightarrow> (case split_loc v of Inl e \<Rightarrow> Inl e | Inr p \<Rightarrow> parse_floats lib p)))"

definition try_current_location :: "pylib \<Rightarrow> network \<Rightarrow> world \<Rightarrow> (exn + real \<times> real) \<times> world" where
  "try_current_location lib net w =
     (case requests_get net ''https://ipinfo.io'' w of
        (Inl e, w') \<Rightarrow> (Inl e, w')
      | (Inr resp, w') \<Rightarrow>
          (case json_body resp of
             Inl e \<Rightarrow> (Inl e, w')
           | Inr d \<Rightarrow> (location_of_data lib d, w')))"

text \<open>
  \<^verbatim>\<open>except Exception as e: ... return None, None\<close>: every exception of the model is an
  \<^verbatim>\<open>Exception\<close>, so the handler takes each of them. The function returns a pair; each
  component is a float or \<^verbatim>\<open>None\<close>.
\<close>

definition get_current_location :: "pylib \<Rightarrow> network \<Rightarrow> world \<Rightarrow> (exn + real option \<times> real option) \<times> world" where
  "get_current_location lib net w =
     (case try_current_location lib net w of
        (Inl e, w') \<Rightarrow> (Inr (None, None), w')
      | (Inr (la, lo), w') \<Rightarrow> (Inr (Some la, Some lo), w'))"


section \<open>The request handlers\<close>

text \<open>
  The body of a \<^verbatim>\<open>post\<close> method returns either \<^verbatim>\<open>{'error': message}, 400\<close> or its
  payload. The request body is taken as the input model declares it: \<^verbatim>\<open>cities\<close> a list of
  strings and \<^verbatim>\<open>start_location\<close> a string. Each method is wrapped in
  \<^verbatim>\<open>@api.marshal_with\<close>; the bodies come first, the wrapped methods after them.
\<close>

datatype reply =
    ErrorReply string int
  | TripPlan "dict list"
  | Museums "dict list"

text \<open>\<^verbatim>\<open>museum['name'].lower()\<close>: \<^verbatim>\<open>KeyError\<close> without the key, \<^verbatim>\<open>AttributeError\<close> when
  the name is not a string.\<close>

definition name_lower :: "pylib \<Rightarrow> dict \<Rightarrow> exn + string" where
  "name_lower lib museum =
     (case getitem museum ''name'' of
        Inl e \<Rightarrow> Inl e
      | Inr (JStr n) \<Rightarrow> Inr (str_lower lib n)
      | Inr _ \<Rightarrow> Inl AttributeError)"

text \<open>
  \<^verbatim>\<open>next((museum for museum in museums
        if start_location_input.lower() == museum['name'].lower()), None)\<close>:
  the first museum that passes the test, the test made on each museum before it.
\<close>

fun next_by_name :: "pylib \<Rightarrow> string \<Rightarrow> dict list \<Rightarrow> exn + dict option" where
  "next_by_name lib s [] = Inr None"
| "next_by_name lib s (museum # museums) =
     (case name_lower lib museum of
        Inl e \<Rightarrow> Inl e
      | Inr n \<Rightarrow> if str_lower lib s = n then Inr (Some museum) else next_by_name lib s museums)"

text \<open>
  Lines 139 to 160 of \<^verbatim>\<open>PlanTrip.post\<close> either return from the handler or leave
  \<^verbatim>\<open>start_location\<close> set (it starts as \<^verbatim>\<open>None\<close>).
\<close>

datatype resolution =
    Return reply
  | Proceed "point option"

text \<open>The \<^verbatim>\<open>try\<close> block of lines 151 to 160: \<^verbatim>\<open>int\<close> raises \<^verbatim>\<open>ValueError\<close>, which the
  \<^verbatim>\<open>except\<close> clause takes; a \<^verbatim>\<open>KeyError\<close> of the subscripts is not taken.\<close>

definition start_by_number :: "pylib \<Rightarrow> dict list \<Rightarrow> string \<Rightarrow> exn + resolution" where
  "start_by_number lib museums start_location_input =
     (case int_of_str lib start_location_input of
        None \<Rightarrow>
          Inr (Return (ErrorReply
            ''Invalid start location input. Please enter a valid number or museum name.'' 400))
      | Some n \<Rightarrow>
          (let start_location_index = n - 1 in
           if 0 \<le> start_location_index \<and> start_location_index < int (length museums) then
             (case museum_point (museums ! nat start_location_index) of
                Inl e \<Rightarrow> Inl e
              | Inr p \<Rightarrow> Inr (Proceed (Some p)))
           else
             Inr (Return (ErrorReply
               ''Invalid start location number. Please enter a valid number or museum name.'' 400))))"

text \<open>\<^verbatim>\<open>if chosen_museum:\<close> is true for a dict that is not empty.\<close>

definition resolve_start ::
  "pylib \<Rightarrow> network \<Rightarrow> dict list \<Rightarrow> string \<Rightarrow> world \<Rightarrow> (exn + resolution) \<times> world" where
  "resolve_start lib net museums start_location_input w =
     (if str_lower lib start_location_input = ''current location'' then
        (case get_current_location lib net w of
           (Inl e, w') \<Rightarrow> (Inl e, w')
         | (Inr (Some la, Some lo), w') \<Rightarrow>
             (Inr (Proceed (Some \<lparr>latitude = JNum la, longitude = JNum lo\<rparr>)), w')
         | (Inr _, w') \<Rightarrow> (Inr (Return (ErrorReply ''Unable to fetch current location.'' 400)), w'))
      else
        (case next_by_name lib start_location_input museums of
           Inl e \<Rightarrow> (Inl e, w)
         | Inr chosen_museum \<Rightarrow>
             (case chosen_museum of
                Some m \<Rightarrow>
                  if m \<noteq> fmempty then
                    (case museum_point m of
                       Inl e \<Rightarrow> (Inl e, w)
                     | Inr p \<Rightarrow> (Inr (Proceed (Some p)), w))
                  else (start_by_number lib museums start_location_input, w)
              | None \<Rightarrow> (start_by_number lib museums start_location_input, w))))"

text \<open>The museums of a request are objects of their own: the store of a request holds
  the \<open>i\<close>-th museum at address \<open>i\<close>.\<close>

definition heap_of :: "dict list \<Rightarrow> heap" where
  "heap_of museums = (\<lambda>a. if a < length museums then museums ! a else fmempty)"

definition no_museums :: string where
  "no_museums = ''No valid museums found for the provided cities. Please enter valid city names.''"

definition plan_trip_post_body ::
  "pylib \<Rightarrow> network \<Rightarrow> string list \<Rightarrow> string \<Rightarrow> world \<Rightarrow> (exn + reply) \<times> world" where
  "plan_trip_post_body lib net cities start_location_input w =
     (case fetch_museums_for_cities net cities w of
        (Inl e, w1) \<Rightarrow> (Inl e, w1)
      | (Inr museums, w1) \<Rightarrow>
          if museums = [] then (Inr (ErrorReply no_museums 400), w1)
          else
            (case resolve_start lib net museums start_location_input w1 of
               (Inl e, w2) \<Rightarrow> (Inl e, w2)
             | (Inr (Return r), w2) \<Rightarrow> (Inr r, w2)
             | (Inr (Proceed None), w2) \<Rightarrow>
                 (Inr (ErrorReply ''Could not determine start location. Please try again.'' 400), w2)
             | (Inr (Proceed (Some start_location)), w2) \<Rightarrow>
                 (let start_museum =
                        \<lparr>latitude = latitude start_location, longitude = longitude start_location\<rparr>
                  in (case a_star_search lib (heap_of museums) start_museum [0..<length museums] of
                        Inl e \<Rightarrow> (Inl e, w2)
                      | Inr (h', trip_plan, museums') \<Rightarrow> (Inr (TripPlan (map h' trip_plan)), w2)))))"

definition show_museums_post_body :: "network \<Rightarrow> string list \<Rightarrow> world \<Rightarrow> (exn + reply) \<times> world" where
  "show_museums_post_body net cities w =
     (case fetch_museums_for_cities net cities w of
        (Inl e, w1) \<Rightarrow> (Inl e, w1)
      | (Inr museums, w1) \<Rightarrow>
          if museums = [] then (Inr (ErrorReply no_museums 400), w1)
          else (Inr (Museums museums), w1))"


subsection \<open>The output models and \<^verbatim>\<open>marshal_with\<close>\<close>

text \<open>
  The output models of lines 34 to 55, each field with its kind:
  \<^verbatim>\<open>museum_output\<close>, \<^verbatim>\<open>museum_with_distance_output\<close>, and \<^verbatim>\<open>trip_output\<close> whose one field
  \<^verbatim>\<open>trip_plan\<close> is \<^verbatim>\<open>fields.List(fields.Nested(museum_with_distance_output))\<close>.
  None of them has a field \<^verbatim>\<open>error\<close>.
\<close>

datatype field = StringField | FloatField

definition museum_output :: "(string \<times> field) list" where
  "museum_output =
     [(''name'', StringField), (''latitude'', FloatField), (''longitude'', FloatField),
      (''city'', StringField), (''imageUrl'', StringField)]"

definition museum_with_distance_output :: "(string \<times> field) list" where
  "museum_with_distance_output =
     [(''name'', StringField), (''latitude'', FloatField), (''longitude'', FloatField),
      (''city'', StringField), (''imageUrl'', StringField), (''distance'', FloatField)]"

text \<open>
  \<^verbatim>\<open>fields.String.format\<close> and \<^verbatim>\<open>fields.Float.format\<close> of flask-restx (\<^verbatim>\<open>str(value)\<close> and
  \<^verbatim>\<open>float(value)\<close>, a failure raised as an exception) are parameters of the model, as
  the other library functions are.
\<close>

record restx =
  format_string :: "json \<Rightarrow> exn + json"
  format_float :: "json \<Rightarrow> exn + json"

text \<open>
  \<^verbatim>\<open>get_value(key, obj)\<close> of flask-restx, for the keys of the models: the value under the
  key when \<^verbatim>\<open>obj\<close> is a dict that has it, and the default \<^verbatim>\<open>None\<close> otherwise (a subscript
  that fails falls back to \<^verbatim>\<open>getattr(obj, key, None)\<close>, and no value here has an attribute
  of such a name).
\<close>

definition get_value :: "string \<Rightarrow> json \<Rightarrow> json" where
  "get_value key obj =
     (case obj of
        JObj d \<Rightarrow> (case fmlookup d key of None \<Rightarrow> JNull | Some v \<Rightarrow> v)
      | _ \<Rightarrow> JNull)"

text \<open>\<^verbatim>\<open>Raw.output(key, obj)\<close>: \<^verbatim>\<open>None\<close> (the default) for the value \<^verbatim>\<open>None\<close>, the formatted
  value otherwise.\<close>

definition field_output :: "restx \<Rightarrow> field \<Rightarrow> string \<Rightarrow> json \<Rightarrow> exn + json" where
  "field_output fmt f key obj =
     (case get_value key obj of
        JNull \<Rightarrow> Inr JNull
      | v \<Rightarrow> (case f of StringField \<Rightarrow> format_string fmt v | FloatField \<Rightarrow> format_float fmt v))"

text \<open>The dict \<^verbatim>\<open>marshal\<close> builds from one object: every field of the model, in order,
  with its output.\<close>

fun marshal_fields :: "restx \<Rightarrow> (string \<times> field) list \<Rightarrow> json \<Rightarrow> exn + dict" where
  "marshal_fields fmt [] obj = Inr fmempty"
| "marshal_fields fmt ((key, f) # model) obj =
     (case field_output fmt f key obj of
        Inl e \<Rightarrow> Inl e
      | Inr v \<Rightarrow>
          (case marshal_fields fmt model obj of
             Inl e \<Rightarrow> Inl e
           | Inr d \<Rightarrow> Inr (fmupd key v d)))"

lemma comprehension_cong [fundef_cong]:
  "xs = ys \<Longrightarrow> (\<And>x. x \<in> set ys \<Longrightarrow> f x = g x) \<Longrightarrow> comprehension f xs = comprehension g ys"
  by (induction ys arbitrary: xs) (auto split: sum.splits)

text \<open>
  \<^verbatim>\<open>marshal(data, fields)\<close>: a list is marshalled element by element, anything else as
  one object.
\<close>

fun marshal :: "restx \<Rightarrow> (string \<times> field) list \<Rightarrow> json \<Rightarrow> exn + json" where
  "marshal fmt model (JArr xs) =
     (case comprehension (marshal fmt model) xs of Inl e \<Rightarrow> Inl e | Inr ys \<Rightarrow> Inr (JArr ys))"
| "marshal fmt model obj =
     (case marshal_fields fmt model obj of Inl e \<Rightarrow> Inl e | Inr d \<Rightarrow> Inr (JObj d))"

text \<open>
  \<^verbatim>\<open>fields.List(fields.Nested(nested)).output(key, data)\<close>: a list value gives the list of
  its elements, each marshalled with the nested model; the value \<^verbatim>\<open>None\<close> gives the default
  \<^verbatim>\<open>None\<close>; any other value is marshalled into a list of one.
\<close>

definition list_nested_output :: "restx \<Rightarrow> (string \<times> field) list \<Rightarrow> string \<Rightarrow> json \<Rightarrow> exn + json" where
  "list_nested_output fmt nested key obj =
     (case get_value key obj of
        JArr xs \<Rightarrow>
          (case comprehension (marshal fmt nested) xs of Inl e \<Rightarrow> Inl e | Inr ys \<Rightarrow> Inr (JArr ys))
      | JNull \<Rightarrow> Inr JNull
      | v \<Rightarrow> (case marshal fmt nested v of Inl e \<Rightarrow> Inl e | Inr y \<Rightarrow> Inr (JArr [y])))"

text \<open>\<^verbatim>\<open>marshal(data, trip_output)\<close>: the one field \<^verbatim>\<open>trip_plan\<close>.\<close>

fun marshal_trip_output :: "restx \<Rightarrow> json \<Rightarrow> exn + json" where
  "marshal_trip_output fmt (JArr xs) =
     (case comprehension (marshal_trip_output fmt) xs of Inl e \<Rightarrow> Inl e | Inr ys \<Rightarrow> Inr (JArr ys))"
| "marshal_trip_output fmt obj =
     (case list_nested_output fmt museum_with_distance_output ''trip_plan'' obj of
        Inl e \<Rightarrow> Inl e
      | Inr v \<Rightarrow> Inr (JObj (fmupd ''trip_plan'' v fmempty)))"

text \<open>
  What a body returns, as the Python value it is: the pair of the error dict and the
  status, the dict with the trip plan, or the list of museums.
\<close>

definition returned :: "reply \<Rightarrow> json \<times> int option" where
  "returned r =
     (case r of
        ErrorReply msg code \<Rightarrow> (JObj (fmupd ''error'' (JStr msg) fmempty), Some code)
      | TripPlan trip_plan \<Rightarrow> (JObj (fmupd ''trip_plan'' (JArr (map JObj trip_plan)) fmempty), None)
      | Museums museums \<Rightarrow> (JArr (map JObj museums), None))"

text \<open>
  The wrapper of \<^verbatim>\<open>marshal_with\<close>: a returned pair \<^verbatim>\<open>(data, code)\<close> becomes
  \<^verbatim>\<open>(marshal(data), code, {})\<close>, whatever the code is; any other value becomes
  \<^verbatim>\<open>marshal(value)\<close>. The empty headers are left out.
\<close>

datatype response_value =
    WithStatus json int
  | Payload json

definition marshal_with :: "(json \<Rightarrow> exn + json) \<Rightarrow> json \<times> int option \<Rightarrow> exn + response_value" where
  "marshal_with m resp =
     (case m (fst resp) of
        Inl e \<Rightarrow> Inl e
      | Inr body \<Rightarrow> (case snd resp of Some code \<Rightarrow> Inr (WithStatus body code) | None \<Rightarrow> Inr (Payload body)))"

text \<open>\<^verbatim>\<open>PlanTrip.post\<close> as the route calls it: the body under
  \<^verbatim>\<open>@api.marshal_with(trip_output)\<close>.\<close>

definition plan_trip_post ::
  "restx \<Rightarrow> pylib \<Rightarrow> network \<Rightarrow> string list \<Rightarrow> string \<Rightarrow> world \<Rightarrow> (exn + response_value) \<times> world" where
  "plan_trip_post fmt lib net cities start_location_input w =
     (case plan_trip_post_body lib net cities start_location_input w of
        (Inl e, w') \<Rightarrow> (Inl e, w')
      | (Inr r, w') \<Rightarrow> (marshal_with (marshal_trip_output fmt) (returned r), w'))"

text \<open>\<^verbatim>\<open>ShowMuseums.post\<close> as the route calls it: the body under
  \<^verbatim>\<open>@api.marshal_with(museum_output, as_list=True)\<close> (\<^verbatim>\<open>as_list\<close> is read by the
  documentation only).\<close>

definition show_museums_post ::
  "restx \<Rightarrow> network \<Rightarrow> string list \<Rightarrow> world \<Rightarrow> (exn + response_value) \<times> world" where
  "show_museums_post fmt net cities w =
     (case show_museums_post_body net cities w of
        (Inl e, w') \<Rightarrow> (Inl e, w')
      | (Inr r, w') \<Rightarrow> (marshal_with (marshal fmt museum_output) (returned r), w'))"

section \<open>Properties stated in the words of the specification\<close>

text \<open>The sequencer does not raise when every museum has its two coordinates and the
  distance is defined from the start to every museum and between any two museums.\<close>

definition distances_defined :: "pylib \<Rightarrow> heap \<Rightarrow> point \<Rightarrow> nat list \<Rightarrow> bool" where
  "distances_defined lib h start museums \<longleftrightarrow>
     (\<forall>r\<in>set museums. \<exists>q. museum_point (h r) = Inr q
        \<and> (\<exists>d. heuristic lib start q = Inr d)
        \<and> (\<forall>r'\<in>set museums. \<exists>p. museum_point (h r') = Inr p \<and> (\<exists>d. heuristic lib p q = Inr d)))"

text \<open>Two stores agree on every field of every record but \<^verbatim>\<open>distance\<close>.\<close>

definition same_but_distance :: "heap \<Rightarrow> heap \<Rightarrow> bool" where
  "same_but_distance h h' \<longleftrightarrow>
     (\<forall>r k. k \<noteq> ''distance'' \<longrightarrow> fmlookup (h' r) k = fmlookup (h r) k)"

text \<open>What the client answers for each city when it is called once per city, in the
  order of the list, each call made in the world the calls before it left.\<close>

fun client_answers :: "network \<Rightarrow> string list \<Rightarrow> world \<Rightarrow> (string \<times> (exn + museums_dict option)) list" where
  "client_answers net [] w = []"
| "client_answers net (c # cities) w =
     (c, fst (fetch_museum_data net c w)) # client_answers net cities (w @ [museum_url c])"

text \<open>The records of one answer, each with its city field set to the queried city;
  nothing for the absence signal.\<close>

definition tagged :: "string \<times> (exn + museums_dict option) \<Rightarrow> dict list" where
  "tagged a =
     (case snd a of
        Inr (Some md) \<Rightarrow> map (fmupd ''city'' (JStr (fst a))) (data md)
      | _ \<Rightarrow> [])"

text \<open>A museum record as the data model has it: a name that is a string, a latitude
  and a longitude.\<close>

definition museum_record :: "dict \<Rightarrow> bool" where
  "museum_record m \<longleftrightarrow>
     (case fmlookup m ''name'' of Some (JStr n) \<Rightarrow> True | _ \<Rightarrow> False)
     \<and> fmlookup m ''latitude'' \<noteq> None \<and> fmlookup m ''longitude'' \<noteq> None"

text \<open>The start location matches a museum's name, case-insensitively.\<close>

definition name_matches :: "pylib \<Rightarrow> string \<Rightarrow> dict \<Rightarrow> bool" where
  "name_matches lib s m =
     (case fmlookup m ''name'' of Some (JStr n) \<Rightarrow> str_lower lib s = str_lower lib n | _ \<Rightarrow> False)"

definition coordinate :: "dict \<Rightarrow> point option" where
  "coordinate m =
     (case fmlookup m ''latitude'' of
        None \<Rightarrow> None
      | Some la \<Rightarrow>
          (case fmlookup m ''longitude'' of
             None \<Rightarrow> None
           | Some lo \<Rightarrow> Some \<lparr>latitude = la, longitude = lo\<rparr>))"

text \<open>
  The precedence of the specification, given what the geolocation client found
  (\<open>None\<close> for the absence signal): the current location; else the museum of that name;
  else the museum at that 1-based position; else an error reply with status 400.
\<close>

definition spec_start_location ::
  "pylib \<Rightarrow> (real \<times> real) option \<Rightarrow> dict list \<Rightarrow> string \<Rightarrow> resolution" where
  "spec_start_location lib located museums s =
     (if str_lower lib s = ''current location'' then
        (case located of
           None \<Rightarrow> Return (ErrorReply ''Unable to fetch current location.'' 400)
         | Some (la, lo) \<Rightarrow> Proceed (Some \<lparr>latitude = JNum la, longitude = JNum lo\<rparr>))
      else
        (case find (name_matches lib s) museums of
           Some m \<Rightarrow> Proceed (coordinate m)
         | None \<Rightarrow>
             (case int_of_str lib s of
                Some n \<Rightarrow>
                  if 0 < n \<and> n \<le> int (length museums) then
                    Proceed (coordinate (museums ! (nat n - 1)))
                  else
                    Return (ErrorReply
                      ''Invalid start location number. Please enter a valid number or museum name.'' 400)
              | None \<Rightarrow>
                  Return (ErrorReply
                    ''Invalid start location input. Please enter a valid number or museum name.'' 400))))"

text \<open>What the geolocation client found: a coordinate, or the absence signal.\<close>

definition located :: "pylib \<Rightarrow> network \<Rightarrow> world \<Rightarrow> (real \<times> real) option" where
  "located lib net w =
     (case fst (get_current_location lib net w) of
        Inr (Some la, Some lo) \<Rightarrow> Some (la, lo)
      | _ \<Rightarrow> None)"

section \<open>A small environment to run the model in\<close>

text \<open>
  Concrete library functions and networks, to evaluate the model on concrete inputs:
  a distance that adds the differences of the coordinates, lower case on ASCII
  letters, and decimal numerals without sign.
\<close>

definition taxicab_km :: "json \<times> json \<Rightarrow> json \<times> json \<Rightarrow> exn + real" where
  "taxicab_km p q =
     (case (fst p, snd p, fst q, snd q) of
        (JNum a, JNum b, JNum c, JNum d) \<Rightarrow> Inr (\<bar>a - c\<bar> + \<bar>b - d\<bar>)
      | _ \<Rightarrow> Inl ValueError)"

definition ascii_lower :: "char \<Rightarrow> char" where
  "ascii_lower c =
     (case map_of (zip ''ABCDEFGHIJKLMNOPQRSTUVWXYZ'' ''abcdefghijklmnopqrstuvwxyz'') c of
        Some l \<Rightarrow> l
      | None \<Rightarrow> c)"

fun digits :: "nat \<Rightarrow> string \<Rightarrow> nat option" where
  "digits acc [] = Some acc"
| "digits acc (c # cs) =
     (let n = (of_char c :: nat) in
      if 48 \<le> n \<and> n \<le> 57 then digits (10 * acc + (n - 48)) cs else None)"

definition decimal :: "string \<Rightarrow> nat option" where
  "decimal s = (if s = [] then None else digits 0 s)"

definition sample_lib :: pylib where
  "sample_lib =
     \<lparr>geodesic_km = taxicab_km,
      str_lower = map ascii_lower,
      int_of_str = (\<lambda>s. map_option int (decimal s)),
      float_of_str = (\<lambda>s. map_option real (decimal s))\<rparr>"

text \<open>Formats that keep a string and a number as they are and raise on anything else.\<close>

definition sample_restx :: restx where
  "sample_restx =
     \<lparr>format_string = (\<lambda>v. case v of JStr s \<Rightarrow> Inr (JStr s) | _ \<Rightarrow> Inl TypeError),
      format_float = (\<lambda>v. case v of JNum x \<Rightarrow> Inr (JNum x) | _ \<Rightarrow> Inl ValueError)\<rparr>"

text \<open>Three museums: A at (0, 3), B at (1, 0), C at (0, 1); B and C are equally far
  from the start (0, 0).\<close>

definition museum_at :: "string \<Rightarrow> real \<Rightarrow> real \<Rightarrow> dict" where
  "museum_at n la lo =
     fmupd ''name'' (JStr n) (fmupd ''latitude'' (JNum la) (fmupd ''longitude'' (JNum lo) fmempty))"

definition sample_museums :: "dict list" where
  "sample_museums = [museum_at ''A'' 0 3, museum_at ''B'' 1 0, museum_at ''C'' 0 1]"

definition origin :: point where
  "origin = \<lparr>latitude = JNum 0, longitude = JNum 0\<rparr>"

text \<open>A network without a connection, one where every request is answered with
  status 404, and one that knows the museums of one city and the caller's location.\<close>

definition net_down :: network where
  "net_down = (\<lambda>w url. Inl RequestException)"

definition net_404 :: network where
  "net_404 = (\<lambda>w url. Inr \<lparr>status_code = 404, json_body = Inl JSONDecodeError\<rparr>)"

definition net_sample :: network where
  "net_sample =
     (\<lambda>w url.
        if url = museum_url ''Cairo'' then
          Inr \<lparr>status_code = 200,
               json_body = Inr (JArr (map (\<lambda>m. JObj (fmupd ''id'' (JNum 7) m)) sample_museums))\<rparr>
        else if url = ''https://ipinfo.io'' then
          Inr \<lparr>status_code = 200, json_body = Inr (JObj (fmupd ''loc'' (JStr ''30,31'') fmempty))\<rparr>
        else Inr \<lparr>status_code = 404, json_body = Inl JSONDecodeError\<rparr>)"


text \<open>A network that knows the museums of one city and raises on every other request.\<close>

definition net_no_location :: network where
  "net_no_location =
     (\<lambda>w url.
        if url = museum_url ''Cairo'' then
          Inr \<lparr>status_code = 200, json_body = Inr (JArr (map JObj sample_museums))\<rparr>
        else Inl RequestException)"

text \<open>A network that answers every request with status 200 and the given body.\<close>

definition net_answering :: "json \<Rightarrow> network" where
  "net_answering body = (\<lambda>w url. Inr \<lparr>status_code = 200, json_body = Inr body\<rparr>)"

section \<open>Lemmas on the trip sequencer\<close>

lemma min_loop_index:
  assumes "\<forall>x\<in>set ys. key x = Inr (f x)"
    and "drop n ys = xs" and "i < n" and "n \<le> length ys"
    and "\<forall>j<n. f (ys ! i) \<le> f (ys ! j)"
    and "\<forall>j<i. f (ys ! i) < f (ys ! j)"
  shows "\<exists>m<length ys. min_loop key (ys ! i) (f (ys ! i)) xs = Inr (ys ! m)
           \<and> (\<forall>j<length ys. f (ys ! m) \<le> f (ys ! j))
           \<and> (\<forall>j<m. f (ys ! m) < f (ys ! j))"
  using assms
proof (induction xs arbitrary: i n)
  case Nil
  then have "n = length ys" by simp
  with Nil show ?case by auto
next
  case (Cons x xs)
  from Cons.prems(2) have n: "n < length ys"
    by (metis drop_all leI list.distinct(1))
  with Cons.prems(2) have x: "x = ys ! n" and xs: "drop (Suc n) ys = xs"
    by (simp_all add: Cons_nth_drop_Suc[symmetric])
  have kx: "key x = Inr (f x)" using Cons.prems(1) n x by simp
  show ?case
  proof (cases "f x < f (ys ! i)")
    case True
    have a: "\<forall>j<Suc n. f (ys ! n) \<le> f (ys ! j)"
      using True Cons.prems(5) x by (auto simp: less_Suc_eq intro: order.strict_implies_order order.strict_trans2)
    have b: "\<forall>j<n. f (ys ! n) < f (ys ! j)"
      using True Cons.prems(5) x by (auto intro: order.strict_trans2)
    from Cons.IH[OF Cons.prems(1) xs _ _ a b] n
    show ?thesis using True kx x by simp
  next
    case False
    have a: "\<forall>j<Suc n. f (ys ! i) \<le> f (ys ! j)"
      using False Cons.prems(5) x by (auto simp: less_Suc_eq)
    from Cons.IH[OF Cons.prems(1) xs _ _ a Cons.prems(6)] n Cons.prems(3)
    show ?thesis using False kx by simp
  qed
qed

lemma py_min_index:
  assumes "ys \<noteq> []" and "\<forall>x\<in>set ys. key x = Inr (f x)"
  shows "\<exists>m<length ys. py_min key ys = Inr (ys ! m)
           \<and> (\<forall>j<length ys. f (ys ! m) \<le> f (ys ! j))
           \<and> (\<forall>j<m. f (ys ! m) < f (ys ! j))"
proof -
  obtain y rest where ys: "ys = y # rest" using assms(1) by (cases ys) auto
  have "\<exists>m<length ys. min_loop key (ys ! 0) (f (ys ! 0)) rest = Inr (ys ! m)
           \<and> (\<forall>j<length ys. f (ys ! m) \<le> f (ys ! j))
           \<and> (\<forall>j<m. f (ys ! m) < f (ys ! j))"
    by (rule min_loop_index[where n = 1]) (use assms(2) ys in auto)
  then show ?thesis using assms(2) ys by (simp add: py_min_def)
qed

lemma list_remove_index:
  assumes "i < length ys" and "\<forall>j<i. ys ! j \<noteq> ys ! i \<and> h (ys ! j) \<noteq> h (ys ! i)"
  shows "list_remove h ys (ys ! i) = Inr (take i ys @ drop (Suc i) ys)"
  using assms
proof (induction ys arbitrary: i)
  case Nil
  then show ?case by simp
next
  case (Cons y ys)
  show ?case
  proof (cases i)
    case 0
    then show ?thesis by simp
  next
    case (Suc k)
    have "y \<noteq> (y # ys) ! i \<and> h y \<noteq> h ((y # ys) ! i)"
      using Cons.prems(2) Suc by (metis nth_Cons_0 zero_less_Suc)
    moreover have "list_remove h ys (ys ! k) = Inr (take k ys @ drop (Suc k) ys)"
      using Cons.prems Suc by (intro Cons.IH) auto
    ultimately show ?thesis using Suc by simp
  qed
qed


lemma getitem_fmupd_other:
  "k \<noteq> k' \<Longrightarrow> getitem (fmupd k' v m) k = getitem m k"
  by (simp add: getitem_def)

lemma museum_point_distance [simp]:
  "museum_point (fmupd ''distance'' v m) = museum_point m"
  by (simp add: museum_point_def getitem_fmupd_other cong: sum.case_cong)

lemma museum_key_distance [simp]:
  "museum_key lib cur (fmupd ''distance'' v m) = museum_key lib cur m"
  by (simp add: museum_key_def)

lemma museum_key_point:
  "museum_key lib cur m = Inr d \<Longrightarrow> \<exists>p. museum_point m = Inr p"
  by (auto simp: museum_key_def split: sum.splits)

lemma a_star_body_index:
  assumes "ms \<noteq> []" and "\<forall>r\<in>set ms. \<exists>d. museum_key lib cur (h r) = Inr d"
  shows "\<exists>i d p. i < length ms
           \<and> museum_key lib cur (h (ms ! i)) = Inr d
           \<and> museum_point (h (ms ! i)) = Inr p
           \<and> (\<forall>j<length ms. \<exists>d'. museum_key lib cur (h (ms ! j)) = Inr d' \<and> d \<le> d')
           \<and> (\<forall>j<i. \<exists>d'. museum_key lib cur (h (ms ! j)) = Inr d' \<and> d < d')
           \<and> a_star_body lib (h, cur, ms, plan) =
               Inr (h(ms ! i := fmupd ''distance'' (JNum d) (h (ms ! i))), p,
                    take i ms @ drop (Suc i) ms, plan @ [ms ! i])"
proof -
  define key where "key = (\<lambda>r. museum_key lib cur (h r))"
  define f where "f = (\<lambda>r. case key r of Inr d \<Rightarrow> d | Inl e \<Rightarrow> 0)"
  have kf: "\<forall>r\<in>set ms. key r = Inr (f r)"
    using assms(2) by (auto simp: key_def f_def)
  from py_min_index[OF assms(1) kf] obtain i where i: "i < length ms"
    and pm: "py_min key ms = Inr (ms ! i)"
    and le: "\<forall>j<length ms. f (ms ! i) \<le> f (ms ! j)"
    and lt: "\<forall>j<i. f (ms ! i) < f (ms ! j)"
    by blast
  let ?c = "ms ! i"
  let ?d = "f ?c"
  let ?h' = "h(?c := fmupd ''distance'' (JNum ?d) (h ?c))"
  have kc: "museum_key lib cur (h ?c) = Inr ?d"
    using kf i by (simp add: key_def)
  then obtain p where p: "museum_point (h ?c) = Inr p"
    by (blast dest: museum_key_point)
  have kj: "museum_key lib cur (h (ms ! j)) = Inr (f (ms ! j))" if "j < length ms" for j
    using kf that by (simp add: key_def)
  have neq: "ms ! j \<noteq> ?c \<and> ?h' (ms ! j) \<noteq> ?h' ?c" if "j < i" for j
  proof -
    from that lt have s: "f ?c < f (ms ! j)" by simp
    then have ne: "ms ! j \<noteq> ?c" by auto
    have "h (ms ! j) \<noteq> fmupd ''distance'' (JNum ?d) (h ?c)"
    proof
      assume "h (ms ! j) = fmupd ''distance'' (JNum ?d) (h ?c)"
      then have "museum_key lib cur (h (ms ! j)) = museum_key lib cur (h ?c)" by simp
      with kj[of j] kc that i s show False by simp
    qed
    with ne show ?thesis by simp
  qed
  have rm: "list_remove ?h' ms ?c = Inr (take i ms @ drop (Suc i) ms)"
    by (rule list_remove_index[OF i]) (use neq in blast)
  have body: "a_star_body lib (h, cur, ms, plan) =
      Inr (?h', p, take i ms @ drop (Suc i) ms, plan @ [?c])"
    using pm kc p rm by (simp add: a_star_body_def key_def Let_def)
  have "\<forall>j<length ms. \<exists>d'. museum_key lib cur (h (ms ! j)) = Inr d' \<and> ?d \<le> d'"
    using le kj by auto
  moreover have "\<forall>j<i. \<exists>d'. museum_key lib cur (h (ms ! j)) = Inr d' \<and> ?d < d'"
    using lt kj i by auto
  ultimately show ?thesis using i kc p body by blast
qed


lemma mset_remove_nth:
  "i < length xs \<Longrightarrow> mset (take i xs @ drop (Suc i) xs) + {#xs ! i#} = mset xs"
proof -
  assume "i < length xs"
  then have "xs = take i xs @ xs ! i # drop (Suc i) xs" by (rule id_take_nth_drop)
  then have "mset xs = mset (take i xs @ xs ! i # drop (Suc i) xs)" by simp
  then show ?thesis by simp
qed

lemma set_remove_nth:
  "set (take i xs @ drop (Suc i) xs) \<subseteq> set xs"
  by (auto dest: in_set_takeD in_set_dropD)

lemma a_star_loop_total:
  assumes "\<forall>r\<in>set ms. \<exists>q\<in>P. museum_point (h r) = Inr q"
    and "\<forall>q\<in>P. \<exists>d. heuristic lib cur q = Inr d"
    and "\<forall>p\<in>P. \<forall>q\<in>P. \<exists>d. heuristic lib p q = Inr d"
  shows "\<exists>h' cur' plan'. a_star_loop lib (h, cur, ms, plan) = Inr (h', cur', [], plan')
           \<and> mset plan' = mset plan + mset ms"
  using assms
proof (induction "length ms" arbitrary: h cur ms plan rule: less_induct)
  case less
  show ?case
  proof (cases "ms = []")
    case True
    then show ?thesis by (simp add: a_star_loop.simps[of lib h cur "[]" plan])
  next
    case False
    have keys: "\<forall>r\<in>set ms. \<exists>d. museum_key lib cur (h r) = Inr d"
    proof
      fix r assume "r \<in> set ms"
      with less.prems(1) obtain q where "q \<in> P" "museum_point (h r) = Inr q" by blast
      with less.prems(2) show "\<exists>d. museum_key lib cur (h r) = Inr d"
        by (auto simp: museum_key_def)
    qed
    from a_star_body_index[OF False keys, of plan] obtain i d p where i: "i < length ms"
      and p: "museum_point (h (ms ! i)) = Inr p"
      and body: "a_star_body lib (h, cur, ms, plan) =
               Inr (h(ms ! i := fmupd ''distance'' (JNum d) (h (ms ! i))), p,
                    take i ms @ drop (Suc i) ms, plan @ [ms ! i])"
      by blast
    let ?h' = "h(ms ! i := fmupd ''distance'' (JNum d) (h (ms ! i)))"
    let ?ms' = "take i ms @ drop (Suc i) ms"
    have len: "length ?ms' < length ms" using i by simp
    have pt: "museum_point (?h' r) = museum_point (h r)" for r by simp
    have a: "\<forall>r\<in>set ?ms'. \<exists>q\<in>P. museum_point (?h' r) = Inr q"
      using less.prems(1) set_remove_nth[of i ms] unfolding pt by blast
    have "p \<in> P" using less.prems(1) i p nth_mem[OF i] by fastforce
    then have b: "\<forall>q\<in>P. \<exists>d. heuristic lib p q = Inr d"
      using less.prems(3) by blast
    from less.hyps[OF len a b less.prems(3), of "plan @ [ms ! i]"]
    obtain h'' cur'' plan'' where
      r: "a_star_loop lib (?h', p, ?ms', plan @ [ms ! i]) = Inr (h'', cur'', [], plan'')"
      and m: "mset plan'' = mset (plan @ [ms ! i]) + mset ?ms'"
      by blast
    have "a_star_loop lib (h, cur, ms, plan) = Inr (h'', cur'', [], plan'')"
      using False body r by (simp add: a_star_loop.simps[of lib h cur ms plan])
    moreover have "mset plan'' = mset plan + mset ms"
      using m mset_remove_nth[OF i] by (simp add: ac_simps)
    ultimately show ?thesis by blast
  qed
qed

lemma min_loop_in_set:
  "min_loop key b v xs = Inr x \<Longrightarrow> x = b \<or> x \<in> set xs"
  by (induction xs arbitrary: b v) (auto split: sum.splits if_splits)

lemma py_min_in_set:
  "py_min key xs = Inr x \<Longrightarrow> x \<in> set xs"
  by (auto simp: py_min_def split: list.splits sum.splits dest: min_loop_in_set)

lemma list_remove_subset:
  "list_remove h xs x = Inr ys \<Longrightarrow> set ys \<subseteq> set xs"
  by (induction xs arbitrary: ys) (auto split: if_splits sum.splits)

lemma a_star_body_heap:
  assumes "a_star_body lib (h, cur, ms, plan) = Inr (h', cur', ms', plan')"
  shows "\<exists>c d. c \<in> set ms \<and> h' = h(c := fmupd ''distance'' (JNum d) (h c)) \<and> set ms' \<subseteq> set ms"
  using assms
  by (auto simp: a_star_body_def Let_def split: sum.splits
      dest!: py_min_in_set list_remove_subset)

lemma a_star_loop_frame:
  "a_star_loop lib s = Inr t \<Longrightarrow>
     same_but_distance (fst s) (fst t) \<and> (\<forall>r. r \<notin> set (fst (snd (snd s))) \<longrightarrow> fst t r = fst s r)"
proof (induction lib s arbitrary: t rule: a_star_loop.induct)
  case (1 lib h cur ms plan)
  show ?case
  proof (cases "ms = []")
    case True
    with "1.prems" show ?thesis
      by (simp add: a_star_loop.simps[of lib h cur "[]" plan] same_but_distance_def)
  next
    case False
    from "1.prems" False
    have "(case a_star_body lib (h, cur, ms, plan) of Inl e \<Rightarrow> Inl e | Inr s' \<Rightarrow> a_star_loop lib s') = Inr t"
      by (simp add: a_star_loop.simps[of lib h cur ms plan])
    then obtain s' where b: "a_star_body lib (h, cur, ms, plan) = Inr s'"
      and l: "a_star_loop lib s' = Inr t"
      by (cases "a_star_body lib (h, cur, ms, plan)") auto
    obtain h1 cur1 ms1 plan1 where s': "s' = (h1, cur1, ms1, plan1)" by (cases s') auto
    from a_star_body_heap[OF b[unfolded s']] obtain c d where c: "c \<in> set ms"
      and h1: "h1 = h(c := fmupd ''distance'' (JNum d) (h c))" and sub: "set ms1 \<subseteq> set ms"
      by blast
    from "1.IH"[OF False b l] have ih: "same_but_distance h1 (fst t)"
      "\<forall>r. r \<notin> set ms1 \<longrightarrow> fst t r = h1 r"
      by (simp_all add: s')
    have "same_but_distance h (fst t)"
      using ih(1) unfolding same_but_distance_def h1 by (auto split: if_splits)
    moreover have "\<forall>r. r \<notin> set ms \<longrightarrow> fst t r = h r"
      using ih(2) sub c h1 by auto
    ultimately show ?thesis by simp
  qed
qed

lemma a_star_search_returns:
  assumes "distances_defined lib h start museums"
  shows "\<exists>h' trip_plan. a_star_search lib h start museums = Inr (h', trip_plan, [])
           \<and> mset trip_plan = mset museums"
proof -
  define P where "P = {q. \<exists>r\<in>set museums. museum_point (h r) = Inr q}"
  have a: "\<forall>r\<in>set museums. \<exists>q\<in>P. museum_point (h r) = Inr q"
    using assms unfolding distances_defined_def P_def by blast
  have b: "\<forall>q\<in>P. \<exists>d. heuristic lib start q = Inr d"
    using assms unfolding distances_defined_def P_def by fastforce
  have c: "\<forall>p\<in>P. \<forall>q\<in>P. \<exists>d. heuristic lib p q = Inr d"
  proof (intro ballI)
    fix p q assume "p \<in> P" "q \<in> P"
    then obtain r r' where r: "r \<in> set museums" "museum_point (h r) = Inr q"
      and r': "r' \<in> set museums" "museum_point (h r') = Inr p"
      unfolding P_def by blast
    from assms r(1) obtain q' where q': "museum_point (h r) = Inr q'"
      "\<forall>r'\<in>set museums. \<exists>p. museum_point (h r') = Inr p \<and> (\<exists>d. heuristic lib p q' = Inr d)"
      unfolding distances_defined_def by blast
    from q'(1) r(2) have "q' = q" by simp
    with q'(2) r' show "\<exists>d. heuristic lib p q = Inr d" by fastforce
  qed
  from a_star_loop_total[OF a b c, of "[]"] show ?thesis
    by (auto simp: a_star_search_def)
qed

lemma a_star_search_frame_aux:
  assumes "a_star_search lib h start museums = Inr (h', trip_plan, museums')"
  shows "same_but_distance h h' \<and> (\<forall>r. r \<notin> set museums \<longrightarrow> h' r = h r)"
proof -
  from assms obtain cur where "a_star_loop lib (h, start, museums, []) = Inr (h', cur, museums', trip_plan)"
    by (auto simp: a_star_search_def split: sum.splits)
  from a_star_loop_frame[OF this] show ?thesis by simp
qed

section \<open>The trip sequencer: claims\<close>

lemma sample_keys:
  "museum_key sample_lib origin (heap_of sample_museums 0) = Inr 3"
  "museum_key sample_lib origin (heap_of sample_museums 1) = Inr 1"
  "museum_key sample_lib origin (heap_of sample_museums 2) = Inr 1"
  "museum_key sample_lib origin (heap_of sample_museums (Suc 0)) = Inr 1"
  by (simp_all add: museum_key_def museum_point_def museum_at_def getitem_def heuristic_def
      sample_lib_def taxicab_km_def origin_def heap_of_def sample_museums_def)

lemma sample_points:
  "museum_point (heap_of sample_museums 0) = Inr \<lparr>latitude = JNum 0, longitude = JNum 3\<rparr>"
  "museum_point (heap_of sample_museums 1) = Inr \<lparr>latitude = JNum 1, longitude = JNum 0\<rparr>"
  "museum_point (heap_of sample_museums 2) = Inr \<lparr>latitude = JNum 0, longitude = JNum 1\<rparr>"
  "museum_point (heap_of sample_museums (Suc 0)) = Inr \<lparr>latitude = JNum 1, longitude = JNum 0\<rparr>"
  by (simp_all add: museum_point_def museum_at_def getitem_def heap_of_def sample_museums_def)

lemma sample_distances_defined:
  "distances_defined sample_lib (heap_of sample_museums) origin [0, 1, 2]"
  by (simp add: distances_defined_def sample_points heuristic_def sample_lib_def
      taxicab_km_def origin_def)

lemma differ_by_name:
  "fmlookup a ''name'' \<noteq> fmlookup b ''name'' \<Longrightarrow> (a = b) = False"
  by auto

text \<open>The sequencer run on the three museums from the origin: B, then C, then A.\<close>

lemma sample_run:
  "\<exists>h'. a_star_search sample_lib (heap_of sample_museums) origin [0, 1, 2] = Inr (h', [1, 2, 0], [])
     \<and> map (\<lambda>r. fmlookup (h' r) ''distance'') [1, 2, 0] = [Some (JNum 1), Some (JNum 2), Some (JNum 2)]"
  by (simp add: a_star_search_def a_star_loop.simps a_star_body_def py_min_def Let_def
      museum_key_def museum_point_def getitem_def heuristic_def sample_lib_def taxicab_km_def
      origin_def heap_of_def sample_museums_def museum_at_def differ_by_name)

text \<open>
  C1. In one iteration on a non-empty working list whose distances are all defined, the
  sequencer takes the record at the first index whose distance from the current
  position is minimal: no record is nearer, and every record before it is strictly
  farther. It stores that distance in the record's distance field, appends the record
  to the plan, removes it from the working list and moves the current position to the
  record's coordinate; the loop goes on from that state.
\<close>

theorem a_star_iteration_selects_nearest:
  assumes "ms \<noteq> []" and "\<forall>r\<in>set ms. \<exists>d. museum_key lib cur (h r) = Inr d"
  shows "\<exists>i d p. i < length ms
           \<and> museum_key lib cur (h (ms ! i)) = Inr d
           \<and> museum_point (h (ms ! i)) = Inr p
           \<and> (\<forall>j<length ms. \<exists>d'. museum_key lib cur (h (ms ! j)) = Inr d' \<and> d \<le> d')
           \<and> (\<forall>j<i. \<exists>d'. museum_key lib cur (h (ms ! j)) = Inr d' \<and> d < d')
           \<and> a_star_body lib (h, cur, ms, plan) =
               Inr (h(ms ! i := fmupd ''distance'' (JNum d) (h (ms ! i))), p,
                    take i ms @ drop (Suc i) ms, plan @ [ms ! i])
           \<and> a_star_loop lib (h, cur, ms, plan) =
               a_star_loop lib (h(ms ! i := fmupd ''distance'' (JNum d) (h (ms ! i))), p,
                    take i ms @ drop (Suc i) ms, plan @ [ms ! i])"
proof -
  from a_star_body_index[OF assms, of plan] obtain i d p where
    f: "i < length ms" "museum_key lib cur (h (ms ! i)) = Inr d" "museum_point (h (ms ! i)) = Inr p"
      "\<forall>j<length ms. \<exists>d'. museum_key lib cur (h (ms ! j)) = Inr d' \<and> d \<le> d'"
      "\<forall>j<i. \<exists>d'. museum_key lib cur (h (ms ! j)) = Inr d' \<and> d < d'"
    and b: "a_star_body lib (h, cur, ms, plan) =
               Inr (h(ms ! i := fmupd ''distance'' (JNum d) (h (ms ! i))), p,
                    take i ms @ drop (Suc i) ms, plan @ [ms ! i])"
    by blast
  have "a_star_loop lib (h, cur, ms, plan) =
               a_star_loop lib (h(ms ! i := fmupd ''distance'' (JNum d) (h (ms ! i))), p,
                    take i ms @ drop (Suc i) ms, plan @ [ms ! i])"
    using assms(1) b by (simp add: a_star_loop.simps[of lib h cur ms plan])
  with f b show ?thesis by blast
qed

theorem a_star_iteration_selects_nearest_witness:
  "\<exists>h'. a_star_body sample_lib (heap_of sample_museums, origin, [0, 1, 2], []) =
           Inr (h', \<lparr>latitude = JNum 1, longitude = JNum 0\<rparr>, [0, 2], [1])
         \<and> fmlookup (h' 1) ''distance'' = Some (JNum 1)"
proof -
  have ne: "[0, 1, 2::nat] \<noteq> []" by simp
  have keys: "\<forall>r\<in>set [0, 1, 2]. \<exists>d. museum_key sample_lib origin (heap_of sample_museums r) = Inr d"
    by (simp add: sample_keys)
  from a_star_iteration_selects_nearest[OF ne keys, of "[]"] obtain i d p where
    i: "i < length [0, 1, 2::nat]"
    and d: "museum_key sample_lib origin (heap_of sample_museums ([0, 1, 2] ! i)) = Inr d"
    and p: "museum_point (heap_of sample_museums ([0, 1, 2] ! i)) = Inr p"
    and le: "\<forall>j<length [0, 1, 2::nat]. \<exists>d'. museum_key sample_lib origin (heap_of sample_museums ([0, 1, 2] ! j)) = Inr d' \<and> d \<le> d'"
    and lt: "\<forall>j<i. \<exists>d'. museum_key sample_lib origin (heap_of sample_museums ([0, 1, 2] ! j)) = Inr d' \<and> d < d'"
    and b: "a_star_body sample_lib (heap_of sample_museums, origin, [0, 1, 2], []) =
             Inr ((heap_of sample_museums)([0, 1, 2] ! i := fmupd ''distance'' (JNum d) (heap_of sample_museums ([0, 1, 2] ! i))), p,
                  take i [0, 1, 2] @ drop (Suc i) [0, 1, 2], [] @ [[0, 1, 2] ! i])"
    by blast
  from i have "i = 0 \<or> i = 1 \<or> i = 2" by auto
  moreover have "i \<noteq> 0"
  proof
    assume "i = 0"
    with d have "d = 3" by (simp add: sample_keys)
    moreover from le[THEN spec, of 1] have "\<exists>d'. museum_key sample_lib origin (heap_of sample_museums ([0, 1, 2] ! 1)) = Inr d' \<and> d \<le> d'"
      by simp
    ultimately show False by (simp add: sample_keys)
  qed
  moreover have "i \<noteq> 2"
  proof
    assume "i = 2"
    with d have "d = 1" by (simp add: sample_keys)
    moreover from lt[THEN spec, of 1] \<open>i = 2\<close> have "\<exists>d'. museum_key sample_lib origin (heap_of sample_museums ([0, 1, 2] ! 1)) = Inr d' \<and> d < d'"
      by simp
    ultimately show False by (simp add: sample_keys)
  qed
  ultimately have i1: "i = 1" by blast
  with d have d1: "d = 1" by (simp add: sample_keys)
  from p i1 have p1: "p = \<lparr>latitude = JNum 1, longitude = JNum 0\<rparr>" by (simp add: sample_points)
  from b show ?thesis unfolding i1 d1 p1 by simp
qed

text \<open>
  C2. When the distances are defined, the sequencer returns; the plan is a permutation
  of the input list (the same objects, each as often as in the input) and has its
  length, and the working list is empty.
\<close>

theorem a_star_search_permutation:
  assumes "distances_defined lib h start museums"
  shows "\<exists>h' trip_plan. a_star_search lib h start museums = Inr (h', trip_plan, [])
           \<and> mset trip_plan = mset museums \<and> length trip_plan = length museums"
proof -
  from a_star_search_returns[OF assms] obtain h' trip_plan where
    r: "a_star_search lib h start museums = Inr (h', trip_plan, [])"
    and m: "mset trip_plan = mset museums"
    by blast
  from m have "length trip_plan = length museums" by (rule mset_eq_length)
  with r m show ?thesis by blast
qed

theorem a_star_search_permutation_witness:
  "distances_defined sample_lib (heap_of sample_museums) origin [0, 1, 2]
   \<and> (\<exists>h'. a_star_search sample_lib (heap_of sample_museums) origin [0, 1, 2] =
          Inr (h', [1, 2, 0], []))
   \<and> mset [1, 2, 0] = mset [0, 1, 2::nat]"
proof -
  from a_star_search_permutation[OF sample_distances_defined] obtain h' trip_plan where
    r: "a_star_search sample_lib (heap_of sample_museums) origin [0, 1, 2] = Inr (h', trip_plan, [])"
    and m: "mset trip_plan = mset [0, 1, 2::nat]"
    by blast
  from sample_run r have "trip_plan = [1, 2, 0]" by auto
  with r m sample_distances_defined show ?thesis by blast
qed

text \<open>
  C10. When the sequencer returns, every record of the store has the fields it had,
  with the values it had, but for the distance field; a record that is not in the
  input list is not changed at all. And the sequencer does return, with such a store,
  when the distances are defined.
\<close>

theorem a_star_search_changes_distance_only:
  "(a_star_search lib h start museums = Inr (h', trip_plan, museums') \<longrightarrow>
      same_but_distance h h' \<and> (\<forall>r. r \<notin> set museums \<longrightarrow> h' r = h r))
   \<and> (distances_defined lib h start museums \<longrightarrow>
      (\<exists>h'' plan. a_star_search lib h start museums = Inr (h'', plan, [])
         \<and> same_but_distance h h'' \<and> (\<forall>r. r \<notin> set museums \<longrightarrow> h'' r = h r)))"
proof -
  have 1: "same_but_distance h h' \<and> (\<forall>r. r \<notin> set museums \<longrightarrow> h' r = h r)"
    if "a_star_search lib h start museums = Inr (h', trip_plan, museums')"
    using that by (rule a_star_search_frame_aux)
  have 2: "\<exists>h'' plan. a_star_search lib h start museums = Inr (h'', plan, [])
         \<and> same_but_distance h h'' \<and> (\<forall>r. r \<notin> set museums \<longrightarrow> h'' r = h r)"
    if "distances_defined lib h start museums"
  proof -
    from a_star_search_returns[OF that] obtain h'' plan where
      r: "a_star_search lib h start museums = Inr (h'', plan, [])"
      by blast
    from a_star_search_frame_aux[OF r] r show ?thesis by blast
  qed
  from 1 2 show ?thesis by blast
qed

theorem a_star_search_changes_distance_only_witness:
  "\<exists>h'. a_star_search sample_lib (heap_of sample_museums) origin [0, 1, 2] =
       Inr (h', [1, 2, 0], [])
     \<and> same_but_distance (heap_of sample_museums) h'
     \<and> fmlookup (h' 0) ''name'' = Some (JStr ''A'')
     \<and> fmlookup (h' 0) ''latitude'' = Some (JNum 0)
     \<and> fmlookup (h' 0) ''longitude'' = Some (JNum 3)
     \<and> fmlookup (h' 0) ''distance'' = Some (JNum 2)
     \<and> h' 3 = fmempty"
proof -
  from sample_run obtain h' where
    r: "a_star_search sample_lib (heap_of sample_museums) origin [0, 1, 2] = Inr (h', [1, 2, 0], [])"
    and d: "fmlookup (h' 0) ''distance'' = Some (JNum 2)"
    by auto
  from a_star_search_changes_distance_only[THEN conjunct1, rule_format, OF r]
  have s: "same_but_distance (heap_of sample_museums) h'"
    and o: "\<forall>r. r \<notin> set [0, 1, 2] \<longrightarrow> h' r = heap_of sample_museums r"
    by blast+
  from s have "fmlookup (h' 0) k = fmlookup (heap_of sample_museums 0) k"
    if "k \<noteq> ''distance''" for k
    using that by (simp add: same_but_distance_def)
  then have n: "fmlookup (h' 0) ''name'' = Some (JStr ''A'')"
    "fmlookup (h' 0) ''latitude'' = Some (JNum 0)"
    "fmlookup (h' 0) ''longitude'' = Some (JNum 3)"
    by (simp_all add: heap_of_def sample_museums_def museum_at_def)
  from o have "h' 3 = heap_of sample_museums 3" by simp
  then have "h' 3 = fmempty" by (simp add: heap_of_def sample_museums_def)
  with r s n d show ?thesis by blast
qed

section \<open>Lemmas on the clients and the aggregator\<close>

lemma fetch_museum_data_world:
  "snd (fetch_museum_data net c w) = w @ [museum_url c]"
  by (simp add: fetch_museum_data_def requests_get_def split: sum.splits)

lemma fetch_loop_answers:
  assumes "\<forall>a\<in>set (client_answers net cities w). \<exists>x. snd a = Inr x"
  shows "fetch_loop net cities acc w =
           (Inr (acc @ concat (map tagged (client_answers net cities w))), w @ map museum_url cities)"
  using assms
proof (induction cities arbitrary: acc w)
  case Nil
  then show ?case by simp
next
  case (Cons c cities)
  from Cons.prems obtain x where x: "fst (fetch_museum_data net c w) = Inr x" by auto
  have w: "snd (fetch_museum_data net c w) = w @ [museum_url c]" by (rule fetch_museum_data_world)
  from x w have f: "fetch_museum_data net c w = (Inr x, w @ [museum_url c])"
    by (metis prod.collapse)
  have rest: "\<forall>a\<in>set (client_answers net cities (w @ [museum_url c])). \<exists>x. snd a = Inr x"
    using Cons.prems by simp
  show ?case
  proof (cases x)
    case None
    with f x Cons.IH[OF rest, of acc] show ?thesis by (simp add: tagged_def)
  next
    case (Some md)
    with f x Cons.IH[OF rest, of "acc @ map (fmupd ''city'' (JStr c)) (data md)"] show ?thesis
      by (simp add: tagged_def)
  qed
qed

lemma client_answers_cities:
  "map fst (client_answers net cities w) = cities"
  by (induction cities arbitrary: w) auto

lemma tagged_absent:
  "snd a = Inr None \<Longrightarrow> tagged a = []"
  by (simp add: tagged_def)

lemma tagged_city:
  "m \<in> set (tagged a) \<Longrightarrow> fmlookup m ''city'' = Some (JStr (fst a))"
  by (auto simp: tagged_def split: sum.splits option.splits)

text \<open>
  C5. When the client returns for each city (records or the absence signal), the
  aggregator has called it once per city in the order of the list, and returns the
  records of the answers in that order, the absent ones skipped, each record with its
  city field set to the queried city. When every answer is the absence signal the
  result is the empty list, and so it is for the empty list of cities.
\<close>

theorem fetch_museums_for_cities_concatenates:
  assumes "\<forall>a\<in>set (client_answers net cities w). \<exists>x. snd a = Inr x"
  shows "fetch_museums_for_cities net cities w =
           (Inr (concat (map tagged (client_answers net cities w))), w @ map museum_url cities)
         \<and> map fst (client_answers net cities w) = cities
         \<and> (\<forall>a\<in>set (client_answers net cities w). \<forall>m\<in>set (tagged a).
               fmlookup m ''city'' = Some (JStr (fst a)))
         \<and> ((\<forall>a\<in>set (client_answers net cities w). snd a = Inr None) \<longrightarrow>
               fst (fetch_museums_for_cities net cities w) = Inr [])
         \<and> fetch_museums_for_cities net [] w = (Inr [], w)"
proof -
  have r: "fetch_museums_for_cities net cities w =
           (Inr (concat (map tagged (client_answers net cities w))), w @ map museum_url cities)"
    using fetch_loop_answers[OF assms, of "[]"] by (simp add: fetch_museums_for_cities_def)
  have "concat (map tagged (client_answers net cities w)) = []"
    if "\<forall>a\<in>set (client_answers net cities w). snd a = Inr None"
    using that by (simp add: tagged_absent)
  with r have "(\<forall>a\<in>set (client_answers net cities w). snd a = Inr None) \<longrightarrow>
               fst (fetch_museums_for_cities net cities w) = Inr []"
    by simp
  moreover have "fetch_museums_for_cities net [] w = (Inr [], w)"
    by (simp add: fetch_museums_for_cities_def)
  ultimately show ?thesis using r client_answers_cities[of net cities w] tagged_city by blast
qed

lemma sample_answers:
  "client_answers net_sample [''Giza'', ''Cairo''] [] =
     [(''Giza'', Inr None),
      (''Cairo'', Inr (Some \<lparr>city = ''Cairo'', data = sample_museums\<rparr>))]"
  by (simp add: fetch_museum_data_def requests_get_def net_sample_def museum_url_def
      cleaned_def strip_id_def sample_museums_def museum_at_def fmdrop_fmupd)

theorem fetch_museums_for_cities_concatenates_witness:
  "fetch_museums_for_cities net_sample [''Giza'', ''Cairo''] [] =
     (Inr (map (fmupd ''city'' (JStr ''Cairo'')) sample_museums),
      [museum_url ''Giza'', museum_url ''Cairo''])"
proof -
  have "\<forall>a\<in>set (client_answers net_sample [''Giza'', ''Cairo''] []). \<exists>x. snd a = Inr x"
    unfolding sample_answers by simp
  from fetch_museums_for_cities_concatenates[OF this]
  have "fetch_museums_for_cities net_sample [''Giza'', ''Cairo''] [] =
           (Inr (concat (map tagged (client_answers net_sample [''Giza'', ''Cairo''] []))),
            [] @ map museum_url [''Giza'', ''Cairo''])"
    by blast
  then show ?thesis unfolding sample_answers by (simp add: tagged_def)
qed

section \<open>The replies of the wrapped methods\<close>

text \<open>
  Neither output model has a field \<^verbatim>\<open>error\<close>: whenever a body returns an error dict with
  a status, the wrapped method returns the status with a dict of the model's fields,
  all \<^verbatim>\<open>None\<close>, and the message is gone. An exception of the body leaves the wrapped
  method as it is.
\<close>

lemma plan_trip_post_error:
  assumes "plan_trip_post_body lib net cities s w = (Inr (ErrorReply msg code), w')"
  shows "plan_trip_post fmt lib net cities s w =
           (Inr (WithStatus (JObj (fmupd ''trip_plan'' JNull fmempty)) code), w')"
  using assms
  by (simp add: plan_trip_post_def returned_def marshal_with_def list_nested_output_def get_value_def)

lemma show_museums_post_error:
  assumes "show_museums_post_body net cities w = (Inr (ErrorReply msg code), w')"
  shows "show_museums_post fmt net cities w =
           (Inr (WithStatus (JObj (fmupd ''name'' JNull (fmupd ''latitude'' JNull
              (fmupd ''longitude'' JNull (fmupd ''city'' JNull (fmupd ''imageUrl'' JNull fmempty))))))
              code), w')"
  using assms
  by (simp add: show_museums_post_def returned_def marshal_with_def museum_output_def
      field_output_def get_value_def)

lemma handlers_raise:
  "fst (plan_trip_post_body lib net cities s w) = Inl e \<Longrightarrow>
     fst (plan_trip_post fmt lib net cities s w) = Inl e"
  "fst (show_museums_post_body net cities w) = Inl e \<Longrightarrow>
     fst (show_museums_post fmt net cities w) = Inl e"
  by (auto simp: plan_trip_post_def show_museums_post_def split: prod.splits sum.splits)

text \<open>
  When the aggregator returns the empty list, both bodies return the error dict with
  the message that no valid museums were found and the status 400, whatever the start
  location and the library functions are, and make no further request: the start
  location is not resolved and the sequencer is not run.
\<close>

lemma no_museums_body_reply:
  assumes "fetch_museums_for_cities net cities w = (Inr [], w')"
  shows "plan_trip_post_body lib net cities start_location_input w =
           (Inr (ErrorReply no_museums 400), w')
         \<and> show_museums_post_body net cities w = (Inr (ErrorReply no_museums 400), w')
         \<and> no_museums =
             ''No valid museums found for the provided cities. Please enter valid city names.''"
  using assms by (simp add: plan_trip_post_body_def show_museums_post_body_def no_museums_def)

lemma no_museums_post_reply:
  assumes "fetch_museums_for_cities net cities w = (Inr [], w')"
  shows "plan_trip_post fmt lib net cities start_location_input w =
           (Inr (WithStatus (JObj (fmupd ''trip_plan'' JNull fmempty)) 400), w')
         \<and> show_museums_post fmt net cities w =
           (Inr (WithStatus (JObj (fmupd ''name'' JNull (fmupd ''latitude'' JNull
              (fmupd ''longitude'' JNull (fmupd ''city'' JNull (fmupd ''imageUrl'' JNull fmempty))))))
              400), w')"
  using no_museums_body_reply[OF assms, of lib start_location_input]
  by (simp add: plan_trip_post_error show_museums_post_error)

lemma all_404:
  "fetch_museums_for_cities net_404 [''Giza'', ''Luxor''] [] =
     (Inr [], [museum_url ''Giza'', museum_url ''Luxor''])"
  by (simp add: fetch_museums_for_cities_def fetch_museum_data_def requests_get_def net_404_def)

text \<open>
  C6. On an empty list of museums (no city asked for, or every city answered with
  status 404) the bodies build the reply with the message and status 400 without
  resolving the start location or running the sequencer, but the methods the routes
  call return the status 400 with \<^verbatim>\<open>{'trip_plan': None}\<close> and with a museum whose fields
  are all \<^verbatim>\<open>None\<close>: the reply that leaves the handler carries no error message.
\<close>

theorem no_museums_message_lost:
  "plan_trip_post_body lib net [] start_location_input w = (Inr (ErrorReply no_museums 400), w)
   \<and> plan_trip_post fmt lib net [] start_location_input w =
       (Inr (WithStatus (JObj (fmupd ''trip_plan'' JNull fmempty)) 400), w)
   \<and> show_museums_post_body net [] w = (Inr (ErrorReply no_museums 400), w)
   \<and> show_museums_post fmt net [] w =
       (Inr (WithStatus (JObj (fmupd ''name'' JNull (fmupd ''latitude'' JNull
          (fmupd ''longitude'' JNull (fmupd ''city'' JNull (fmupd ''imageUrl'' JNull fmempty))))))
          400), w)
   \<and> plan_trip_post_body sample_lib net_404 [''Giza'', ''Luxor''] ''current location'' [] =
       (Inr (ErrorReply no_museums 400), [museum_url ''Giza'', museum_url ''Luxor''])
   \<and> plan_trip_post sample_restx sample_lib net_404 [''Giza'', ''Luxor''] ''current location'' [] =
       (Inr (WithStatus (JObj (fmupd ''trip_plan'' JNull fmempty)) 400),
        [museum_url ''Giza'', museum_url ''Luxor''])
   \<and> show_museums_post sample_restx net_404 [''Giza'', ''Luxor''] [] =
       (Inr (WithStatus (JObj (fmupd ''name'' JNull (fmupd ''latitude'' JNull
          (fmupd ''longitude'' JNull (fmupd ''city'' JNull (fmupd ''imageUrl'' JNull fmempty))))))
          400), [museum_url ''Giza'', museum_url ''Luxor''])"
proof -
  have e: "fetch_museums_for_cities net [] w = (Inr [], w)"
    by (simp add: fetch_museums_for_cities_def)
  from no_museums_body_reply[OF e, of lib start_location_input]
    no_museums_post_reply[OF e, of fmt lib start_location_input]
    no_museums_body_reply[OF all_404, of sample_lib "''current location''"]
    no_museums_post_reply[OF all_404, of sample_restx sample_lib "''current location''"]
  show ?thesis by simp
qed

section \<open>The geolocation client: claims\<close>

lemma get_current_location_world:
  "snd (get_current_location lib net w) = w @ [''https://ipinfo.io'']"
  by (simp add: get_current_location_def try_current_location_def requests_get_def
      split: sum.splits prod.splits)

lemma get_current_location_of_try:
  "fst (get_current_location lib net w) =
     (case fst (try_current_location lib net w) of
        Inl e \<Rightarrow> Inr (None, None)
      | Inr (la, lo) \<Rightarrow> Inr (Some la, Some lo))"
  by (simp add: get_current_location_def split: sum.splits prod.splits)

lemma try_current_location_of_data:
  "net w ''https://ipinfo.io'' = Inr resp \<Longrightarrow> json_body resp = Inr d \<Longrightarrow>
     fst (try_current_location lib net w) = location_of_data lib d"
  by (simp add: try_current_location_def requests_get_def)

text \<open>
  C7. The geolocation client returns the pair (None, None) when the request raises,
  when the body is not JSON, when the body is an object without the \<^verbatim>\<open>loc\<close> field, and
  when the \<^verbatim>\<open>loc\<close> field is not a string of two comma-separated pieces that both parse
  as floats. In no case at all does it raise.
\<close>

theorem get_current_location_absent:
  "(net w ''https://ipinfo.io'' = Inl e \<longrightarrow>
      fst (get_current_location lib net w) = Inr (None, None))
   \<and> (net w ''https://ipinfo.io'' = Inr resp \<and> json_body resp = Inl e \<longrightarrow>
      fst (get_current_location lib net w) = Inr (None, None))
   \<and> (net w ''https://ipinfo.io'' = Inr resp \<and> json_body resp = Inr (JObj m)
        \<and> fmlookup m ''loc'' = None \<longrightarrow>
      fst (get_current_location lib net w) = Inr (None, None))
   \<and> (net w ''https://ipinfo.io'' = Inr resp \<and> json_body resp = Inr (JObj m)
        \<and> fmlookup m ''loc'' = Some v \<and> (\<forall>s. v \<noteq> JStr s) \<longrightarrow>
      fst (get_current_location lib net w) = Inr (None, None))
   \<and> (net w ''https://ipinfo.io'' = Inr resp \<and> json_body resp = Inr (JObj m)
        \<and> fmlookup m ''loc'' = Some (JStr s)
        \<and> (length (split_on CHR '','' s) \<noteq> 2
             \<or> float_of_str lib (split_on CHR '','' s ! 0) = None
             \<or> float_of_str lib (split_on CHR '','' s ! 1) = None) \<longrightarrow>
      fst (get_current_location lib net w) = Inr (None, None))
   \<and> (\<exists>r. fst (get_current_location lib net w) = Inr r)"
proof (intro conjI impI)
  assume "net w ''https://ipinfo.io'' = Inl e"
  then show "fst (get_current_location lib net w) = Inr (None, None)"
    by (simp add: get_current_location_def try_current_location_def requests_get_def)
next
  assume "net w ''https://ipinfo.io'' = Inr resp \<and> json_body resp = Inl e"
  then show "fst (get_current_location lib net w) = Inr (None, None)"
    by (simp add: get_current_location_def try_current_location_def requests_get_def)
next
  assume a: "net w ''https://ipinfo.io'' = Inr resp \<and> json_body resp = Inr (JObj m)
        \<and> fmlookup m ''loc'' = None"
  then have "location_of_data lib (JObj m) = Inl ValueError"
    by (simp add: location_of_data_def contains_loc_def)
  with a show "fst (get_current_location lib net w) = Inr (None, None)"
    by (simp add: get_current_location_of_try try_current_location_of_data)
next
  assume a: "net w ''https://ipinfo.io'' = Inr resp \<and> json_body resp = Inr (JObj m)
        \<and> fmlookup m ''loc'' = Some v \<and> (\<forall>s. v \<noteq> JStr s)"
  then have "split_loc v = Inl AttributeError"
    by (cases v) (simp_all add: split_loc_def)
  with a have "location_of_data lib (JObj m) = Inl AttributeError"
    by (simp add: location_of_data_def contains_loc_def subscript_loc_def getitem_def)
  with a show "fst (get_current_location lib net w) = Inr (None, None)"
    by (simp add: get_current_location_of_try try_current_location_of_data)
next
  assume a: "net w ''https://ipinfo.io'' = Inr resp \<and> json_body resp = Inr (JObj m)
        \<and> fmlookup m ''loc'' = Some (JStr s)
        \<and> (length (split_on CHR '','' s) \<noteq> 2
             \<or> float_of_str lib (split_on CHR '','' s ! 0) = None
             \<or> float_of_str lib (split_on CHR '','' s ! 1) = None)"
  have "\<exists>e. (case split_loc (JStr s) of Inl e \<Rightarrow> Inl e | Inr p \<Rightarrow> parse_floats lib p) = Inl e"
  proof (cases "split_on CHR '','' s")
    case Nil
    then show ?thesis by (simp add: split_loc_def)
  next
    case (Cons la rest)
    note c1 = this
    show ?thesis
    proof (cases rest)
      case Nil
      with c1 show ?thesis by (simp add: split_loc_def)
    next
      case (Cons lo rest')
      note c2 = this
      show ?thesis
      proof (cases rest')
        case Nil
        with c1 c2 a show ?thesis
          by (auto simp: split_loc_def parse_floats_def split: option.splits)
      next
        case (Cons x xs)
        with c1 c2 show ?thesis by (simp add: split_loc_def)
      qed
    qed
  qed
  then obtain e' where "location_of_data lib (JObj m) = Inl e'"
    using a by (auto simp: location_of_data_def contains_loc_def subscript_loc_def getitem_def)
  with a show "fst (get_current_location lib net w) = Inr (None, None)"
    by (simp add: get_current_location_of_try try_current_location_of_data)
next
  show "\<exists>r. fst (get_current_location lib net w) = Inr r"
    by (simp add: get_current_location_of_try split: sum.splits prod.splits)
qed

theorem get_current_location_absent_witness:
  "fst (get_current_location sample_lib net_down []) = Inr (None, None)
   \<and> fst (get_current_location sample_lib net_404 []) = Inr (None, None)
   \<and> fst (get_current_location sample_lib (net_answering (JObj fmempty)) []) = Inr (None, None)
   \<and> fst (get_current_location sample_lib
        (net_answering (JObj (fmupd ''loc'' (JStr ''30;31'') fmempty))) []) = Inr (None, None)
   \<and> fst (get_current_location sample_lib
        (net_answering (JObj (fmupd ''loc'' (JStr ''30,north'') fmempty))) []) = Inr (None, None)"
proof -
  have 1: "fst (get_current_location sample_lib net_down []) = Inr (None, None)"
    using get_current_location_absent[of net_down "[]" RequestException sample_lib]
    by (simp add: net_down_def)
  have 2: "fst (get_current_location sample_lib net_404 []) = Inr (None, None)"
    using get_current_location_absent[of net_404 "[]" JSONDecodeError sample_lib
        "\<lparr>status_code = 404, json_body = Inl JSONDecodeError\<rparr>"]
    by (simp add: net_404_def)
  have 3: "fst (get_current_location sample_lib (net_answering (JObj fmempty)) []) = Inr (None, None)"
    using get_current_location_absent[of "net_answering (JObj fmempty)" "[]" _ sample_lib
        "\<lparr>status_code = 200, json_body = Inr (JObj fmempty)\<rparr>" fmempty]
    by (simp add: net_answering_def)
  have 4: "fst (get_current_location sample_lib
        (net_answering (JObj (fmupd ''loc'' (JStr ''30;31'') fmempty))) []) = Inr (None, None)"
    using get_current_location_absent[of "net_answering (JObj (fmupd ''loc'' (JStr ''30;31'') fmempty))"
        "[]" _ sample_lib
        "\<lparr>status_code = 200, json_body = Inr (JObj (fmupd ''loc'' (JStr ''30;31'') fmempty))\<rparr>"
        "fmupd ''loc'' (JStr ''30;31'') fmempty" _ "''30;31''"]
    by (simp add: net_answering_def)
  have 5: "fst (get_current_location sample_lib
        (net_answering (JObj (fmupd ''loc'' (JStr ''30,north'') fmempty))) []) = Inr (None, None)"
    using get_current_location_absent[of "net_answering (JObj (fmupd ''loc'' (JStr ''30,north'') fmempty))"
        "[]" _ sample_lib
        "\<lparr>status_code = 200, json_body = Inr (JObj (fmupd ''loc'' (JStr ''30,north'') fmempty))\<rparr>"
        "fmupd ''loc'' (JStr ''30,north'') fmempty" _ "''30,north''"]
    by (simp add: net_answering_def sample_lib_def decimal_def)
  from 1 2 3 4 5 show ?thesis by blast
qed

text \<open>
  C9. The geolocation client returns (None, None) or a pair of two floats, the two
  that the try block parsed; never a pair with one None. So the handler's test
  ``latitude is None or longitude is None'' holds exactly when the pair is
  (None, None): for the start location ``current location'' the handler returns the
  error reply in that case and goes on with the two floats as the start otherwise.
\<close>

theorem get_current_location_both_or_none:
  "(fst (get_current_location lib net w) = Inr (None, None)
      \<and> (\<exists>e. fst (try_current_location lib net w) = Inl e)
      \<and> (str_lower lib s = ''current location'' \<longrightarrow>
           fst (resolve_start lib net museums s w) =
             Inr (Return (ErrorReply ''Unable to fetch current location.'' 400))))
   \<or> (\<exists>la lo. fst (get_current_location lib net w) = Inr (Some la, Some lo)
      \<and> fst (try_current_location lib net w) = Inr (la, lo)
      \<and> (str_lower lib s = ''current location'' \<longrightarrow>
           fst (resolve_start lib net museums s w) =
             Inr (Proceed (Some \<lparr>latitude = JNum la, longitude = JNum lo\<rparr>))))"
proof (cases "try_current_location lib net w")
  case (Pair r w')
  show ?thesis
  proof (cases r)
    case (Inl e)
    with Pair show ?thesis
      by (simp add: get_current_location_def resolve_start_def)
  next
    case (Inr p)
    with Pair show ?thesis
      by (cases p) (simp add: get_current_location_def resolve_start_def)
  qed
qed

lemma sample_location:
  "try_current_location sample_lib net_sample [] = (Inr (30, 31), [''https://ipinfo.io''])"
  by (simp add: try_current_location_def requests_get_def net_sample_def museum_url_def
      location_of_data_def contains_loc_def subscript_loc_def getitem_def split_loc_def
      parse_floats_def sample_lib_def decimal_def)

theorem get_current_location_both_or_none_witness:
  "fst (get_current_location sample_lib net_sample []) = Inr (Some 30, Some 31)
   \<and> fst (resolve_start sample_lib net_sample sample_museums ''Current Location'' []) =
       Inr (Proceed (Some \<lparr>latitude = JNum 30, longitude = JNum 31\<rparr>))
   \<and> fst (get_current_location sample_lib net_down []) = Inr (None, None)
   \<and> fst (resolve_start sample_lib net_down sample_museums ''Current Location'' []) =
       Inr (Return (ErrorReply ''Unable to fetch current location.'' 400))"
proof -
  have l: "str_lower sample_lib ''Current Location'' = ''current location''"
    by (simp add: sample_lib_def ascii_lower_def)
  have d: "fst (try_current_location sample_lib net_down []) = Inl RequestException"
    by (simp add: try_current_location_def requests_get_def net_down_def)
  from get_current_location_both_or_none[of sample_lib net_sample "[]" "''Current Location''" sample_museums]
  have a: "fst (get_current_location sample_lib net_sample []) = Inr (Some 30, Some 31)
     \<and> fst (resolve_start sample_lib net_sample sample_museums ''Current Location'' []) =
       Inr (Proceed (Some \<lparr>latitude = JNum 30, longitude = JNum 31\<rparr>))"
    using l by (auto simp: sample_location)
  from get_current_location_both_or_none[of sample_lib net_down "[]" "''Current Location''" sample_museums]
  have b: "fst (get_current_location sample_lib net_down []) = Inr (None, None)
     \<and> fst (resolve_start sample_lib net_down sample_museums ''Current Location'' []) =
       Inr (Return (ErrorReply ''Unable to fetch current location.'' 400))"
    using l d by auto
  from a b show ?thesis by blast
qed

section \<open>A request that raises in the museum data client\<close>

text \<open>
  C3. \<^verbatim>\<open>fetch_museum_data\<close> calls \<^verbatim>\<open>requests.get\<close> outside any \<^verbatim>\<open>try\<close>: with no connection
  the call raises, and the exception leaves the client, the aggregator and both
  handlers (the bodies and the wrapped methods alike), where the geolocation client,
  on the same network, returns (None, None).
\<close>

theorem fetch_museum_data_raises_without_network:
  "fetch_museum_data net_down ''Cairo'' [] = (Inl RequestException, [museum_url ''Cairo''])
   \<and> fst (fetch_museums_for_cities net_down [''Cairo''] []) = Inl RequestException
   \<and> fst (plan_trip_post_body sample_lib net_down [''Cairo''] ''1'' []) = Inl RequestException
   \<and> fst (show_museums_post_body net_down [''Cairo''] []) = Inl RequestException
   \<and> fst (plan_trip_post sample_restx sample_lib net_down [''Cairo''] ''1'' []) = Inl RequestException
   \<and> fst (show_museums_post sample_restx net_down [''Cairo''] []) = Inl RequestException
   \<and> fst (get_current_location sample_lib net_down []) = Inr (None, None)"
  by (simp add: plan_trip_post_def show_museums_post_def plan_trip_post_body_def
      show_museums_post_body_def fetch_museums_for_cities_def
      fetch_museum_data_def requests_get_def net_down_def get_current_location_def
      try_current_location_def)

section \<open>The start location\<close>

lemma museum_record_name:
  "museum_record m \<Longrightarrow> \<exists>n. fmlookup m ''name'' = Some (JStr n)"
  by (auto simp: museum_record_def split: option.splits json.splits)

lemma museum_record_point:
  "museum_record m \<Longrightarrow> \<exists>p. museum_point m = Inr p \<and> coordinate m = Some p"
  by (auto simp: museum_record_def museum_point_def coordinate_def getitem_def)

lemma museum_record_nonempty:
  "museum_record m \<Longrightarrow> m \<noteq> fmempty"
  by (auto simp: museum_record_def)

lemma name_lower_record:
  "museum_record m \<Longrightarrow>
     \<exists>n. name_lower lib m = Inr n \<and> (name_matches lib s m \<longleftrightarrow> str_lower lib s = n)"
  by (auto simp: name_lower_def name_matches_def getitem_def dest!: museum_record_name)

lemma next_by_name_find:
  "\<forall>m\<in>set museums. museum_record m \<Longrightarrow>
     next_by_name lib s museums = Inr (find (name_matches lib s) museums)"
proof (induction museums)
  case Nil
  then show ?case by simp
next
  case (Cons m museums)
  then have "museum_record m" by simp
  from name_lower_record[OF this, of lib s] obtain n where
    "name_lower lib m = Inr n" "name_matches lib s m \<longleftrightarrow> str_lower lib s = n"
    by blast
  with Cons show ?case by simp
qed

lemma start_by_number_records:
  assumes "\<forall>m\<in>set museums. museum_record m"
  shows "start_by_number lib museums s =
     Inr (case int_of_str lib s of
            Some n \<Rightarrow>
              if 0 < n \<and> n \<le> int (length museums) then
                Proceed (coordinate (museums ! (nat n - 1)))
              else
                Return (ErrorReply
                  ''Invalid start location number. Please enter a valid number or museum name.'' 400)
          | None \<Rightarrow>
              Return (ErrorReply
                ''Invalid start location input. Please enter a valid number or museum name.'' 400))"
proof (cases "int_of_str lib s")
  case None
  then show ?thesis by (simp add: start_by_number_def)
next
  case (Some n)
  show ?thesis
  proof (cases "0 < n \<and> n \<le> int (length museums)")
    case True
    then have i: "nat (n - 1) < length museums" and e: "nat (n - 1) = nat n - 1" by auto
    from i assms have "museum_record (museums ! nat (n - 1))" by simp
    from museum_record_point[OF this] obtain p where
      "museum_point (museums ! nat (n - 1)) = Inr p" "coordinate (museums ! nat (n - 1)) = Some p"
      by blast
    with Some True e show ?thesis by (simp add: start_by_number_def)
  next
    case False
    with Some show ?thesis by (auto simp: start_by_number_def)
  qed
qed

lemma located_cases:
  "get_current_location lib net w =
     (Inr (case located lib net w of None \<Rightarrow> (None, None) | Some (la, lo) \<Rightarrow> (Some la, Some lo)),
      w @ [''https://ipinfo.io''])"
  by (simp add: located_def get_current_location_def try_current_location_def requests_get_def
      split: sum.splits prod.splits)

lemma resolve_start_spec:
  assumes "\<forall>m\<in>set museums. museum_record m"
  shows "resolve_start lib net museums s w =
           (Inr (spec_start_location lib (located lib net w) museums s),
            if str_lower lib s = ''current location'' then w @ [''https://ipinfo.io''] else w)"
proof (cases "str_lower lib s = ''current location''")
  case True
  then show ?thesis
    by (simp add: resolve_start_def spec_start_location_def located_cases
        split: option.splits prod.splits)
next
  case False
  note nb = next_by_name_find[OF assms, of lib s]
  show ?thesis
  proof (cases "find (name_matches lib s) museums")
    case None
    with False nb start_by_number_records[OF assms, of lib s] show ?thesis
      by (simp add: resolve_start_def spec_start_location_def)
  next
    case (Some m)
    then have "m \<in> set museums" by (auto simp: find_Some_iff)
    with assms have r: "museum_record m" by simp
    from museum_record_point[OF r] obtain p where
      "museum_point m = Inr p" "coordinate m = Some p" by blast
    with False nb Some museum_record_nonempty[OF r] show ?thesis
      by (simp add: resolve_start_def spec_start_location_def)
  qed
qed

text \<open>
  On museum records (each with a string name and the two coordinates), lines 139
  to 160 of the handler resolve the start location in the precedence of the
  specification: ``current location'' (any case) asks the geolocation client, and its
  absence is the error reply with status 400; else the first museum whose name equals
  the input (any case) gives its coordinate; else an input that parses as an integer
  \<open>n\<close> with \<open>1 \<le> n \<le> length museums\<close> gives the coordinate of the \<open>n\<close>-th museum; else
  the reply is an error with status 400, one message for a number out of range and
  one for an input that is not a number. Only the first case makes a request. The
  body of the handler, on a non-empty list of museums, returns that error reply, or
  runs the sequencer from that coordinate.
\<close>

lemma plan_trip_body_precedence:
  assumes "\<forall>m\<in>set museums. museum_record m"
  shows "resolve_start lib net museums s w =
           (Inr (spec_start_location lib (located lib net w) museums s),
            if str_lower lib s = ''current location'' then w @ [''https://ipinfo.io''] else w)
         \<and> (fetch_museums_for_cities net cities w0 = (Inr museums, w) \<and> museums \<noteq> [] \<longrightarrow>
              (\<forall>msg code. spec_start_location lib (located lib net w) museums s =
                    Return (ErrorReply msg code) \<longrightarrow>
                 code = 400 \<and> fst (plan_trip_post_body lib net cities s w0) = Inr (ErrorReply msg 400))
              \<and> (\<forall>p. spec_start_location lib (located lib net w) museums s = Proceed (Some p) \<longrightarrow>
                 fst (plan_trip_post_body lib net cities s w0) =
                   (case a_star_search lib (heap_of museums) p [0..<length museums] of
                      Inl e \<Rightarrow> Inl e
                    | Inr (h', trip_plan, museums') \<Rightarrow> Inr (TripPlan (map h' trip_plan)))))"
proof -
  note r = resolve_start_spec[OF assms, of lib net s w]
  have c: "code = 400"
    if "spec_start_location lib (located lib net w) museums s = Return (ErrorReply msg code)"
    for msg code
    using that by (auto simp: spec_start_location_def split: if_splits option.splits prod.splits)
  have pt: "\<lparr>latitude = latitude p, longitude = longitude p\<rparr> = p" for p :: point
    by (cases p) simp
  have e: "fst (plan_trip_post_body lib net cities s w0) = Inr (ErrorReply msg 400)"
    if "fetch_museums_for_cities net cities w0 = (Inr museums, w)" "museums \<noteq> []"
      "spec_start_location lib (located lib net w) museums s = Return (ErrorReply msg code)"
    for msg code
    using that r c[OF that(3)] by (simp add: plan_trip_post_body_def)
  have g: "fst (plan_trip_post_body lib net cities s w0) =
                   (case a_star_search lib (heap_of museums) p [0..<length museums] of
                      Inl e \<Rightarrow> Inl e
                    | Inr (h', trip_plan, museums') \<Rightarrow> Inr (TripPlan (map h' trip_plan)))"
    if "fetch_museums_for_cities net cities w0 = (Inr museums, w)" "museums \<noteq> []"
      "spec_start_location lib (located lib net w) museums s = Proceed (Some p)"
    for p
    using that r
    by (cases "a_star_search lib (heap_of museums) p [0..<length museums]")
      (auto simp: plan_trip_post_body_def pt)
  from r c e g show ?thesis by blast
qed

lemma sample_records:
  "\<forall>m\<in>set sample_museums. museum_record m"
  by (simp add: sample_museums_def museum_record_def museum_at_def)

lemma sample_lower:
  "str_lower sample_lib ''b'' = ''b''" "str_lower sample_lib ''B'' = ''b''"
  "str_lower sample_lib ''A'' = ''a''" "str_lower sample_lib ''C'' = ''c''"
  "str_lower sample_lib ''3'' = ''3''" "str_lower sample_lib ''4'' = ''4''"
  "str_lower sample_lib ''x'' = ''x''"
  by (simp_all add: sample_lib_def ascii_lower_def)

lemma resolve_start_sample_runs:
  "resolve_start sample_lib net_sample sample_museums ''b'' [] =
     (Inr (Proceed (Some \<lparr>latitude = JNum 1, longitude = JNum 0\<rparr>)), [])
   \<and> resolve_start sample_lib net_sample sample_museums ''3'' [] =
     (Inr (Proceed (Some \<lparr>latitude = JNum 0, longitude = JNum 1\<rparr>)), [])
   \<and> resolve_start sample_lib net_sample sample_museums ''4'' [] =
     (Inr (Return (ErrorReply
        ''Invalid start location number. Please enter a valid number or museum name.'' 400)), [])
   \<and> resolve_start sample_lib net_sample sample_museums ''x'' [] =
     (Inr (Return (ErrorReply
        ''Invalid start location input. Please enter a valid number or museum name.'' 400)), [])"
proof -
  have n: "name_matches sample_lib s (museum_at n la lo) \<longleftrightarrow>
             str_lower sample_lib s = str_lower sample_lib n" for s n la lo
    by (simp add: name_matches_def museum_at_def)
  have c: "coordinate (museum_at n la lo) = Some \<lparr>latitude = JNum la, longitude = JNum lo\<rparr>"
    for n la lo
    by (simp add: coordinate_def museum_at_def)
  have i: "int_of_str sample_lib ''3'' = Some 3" "int_of_str sample_lib ''4'' = Some 4"
    "int_of_str sample_lib ''x'' = None"
    by (simp_all add: sample_lib_def decimal_def)
  note t = plan_trip_body_precedence[OF sample_records, THEN conjunct1, of sample_lib net_sample _ "[]"]
  have 1: "resolve_start sample_lib net_sample sample_museums ''b'' [] =
     (Inr (Proceed (Some \<lparr>latitude = JNum 1, longitude = JNum 0\<rparr>)), [])"
    using t[of "''b''"]
    by (simp add: spec_start_location_def sample_museums_def n c sample_lower)
  have 2: "resolve_start sample_lib net_sample sample_museums ''3'' [] =
     (Inr (Proceed (Some \<lparr>latitude = JNum 0, longitude = JNum 1\<rparr>)), [])"
    using t[of "''3''"]
    by (simp add: spec_start_location_def sample_museums_def n c i sample_lower)
  have 3: "resolve_start sample_lib net_sample sample_museums ''4'' [] =
     (Inr (Return (ErrorReply
        ''Invalid start location number. Please enter a valid number or museum name.'' 400)), [])"
    using t[of "''4''"]
    by (simp add: spec_start_location_def sample_museums_def n c i sample_lower)
  have 4: "resolve_start sample_lib net_sample sample_museums ''x'' [] =
     (Inr (Return (ErrorReply
        ''Invalid start location input. Please enter a valid number or museum name.'' 400)), [])"
    using t[of "''x''"]
    by (simp add: spec_start_location_def sample_museums_def n c i sample_lower)
  from 1 2 3 4 show ?thesis by blast
qed

lemma sample_fetch_no_location:
  "fetch_museums_for_cities net_no_location [''Cairo''] [] =
     (Inr (map (fmupd ''city'' (JStr ''Cairo'')) sample_museums), [museum_url ''Cairo''])"
  by (simp add: fetch_museums_for_cities_def fetch_museum_data_def requests_get_def
      net_no_location_def museum_url_def cleaned_def strip_id_def sample_museums_def museum_at_def
      fmdrop_fmupd)

lemma sample_body_errors:
  "plan_trip_post_body sample_lib net_no_location [''Cairo''] ''4'' [] =
     (Inr (ErrorReply
        ''Invalid start location number. Please enter a valid number or museum name.'' 400),
      [museum_url ''Cairo''])"
  "plan_trip_post_body sample_lib net_no_location [''Cairo''] ''x'' [] =
     (Inr (ErrorReply
        ''Invalid start location input. Please enter a valid number or museum name.'' 400),
      [museum_url ''Cairo''])"
  "plan_trip_post_body sample_lib net_no_location [''Cairo''] ''Current Location'' [] =
     (Inr (ErrorReply ''Unable to fetch current location.'' 400),
      [museum_url ''Cairo'', ''https://ipinfo.io''])"
  unfolding plan_trip_post_body_def sample_fetch_no_location
  by (simp_all add: resolve_start_def start_by_number_def name_lower_def ascii_lower_def
      decimal_def getitem_def sample_lib_def sample_museums_def museum_at_def
      get_current_location_def try_current_location_def requests_get_def net_no_location_def
      museum_url_def)

text \<open>
  C4. The precedence of the start location is the specification's (the lemmas above).
  But where the resolution fails, the reply with the descriptive message is built by
  the body only: for a number out of range, for an input that is neither a name nor a
  number, and for ``current location'' when the geolocation client returns the
  absence signal, the method the route calls returns the status 400 with
  \<^verbatim>\<open>{'trip_plan': None}\<close>, without any message.
\<close>

theorem start_location_error_message_lost:
  "plan_trip_post sample_restx sample_lib net_no_location [''Cairo''] ''4'' [] =
     (Inr (WithStatus (JObj (fmupd ''trip_plan'' JNull fmempty)) 400), [museum_url ''Cairo''])
   \<and> plan_trip_post sample_restx sample_lib net_no_location [''Cairo''] ''x'' [] =
     (Inr (WithStatus (JObj (fmupd ''trip_plan'' JNull fmempty)) 400), [museum_url ''Cairo''])
   \<and> plan_trip_post sample_restx sample_lib net_no_location [''Cairo''] ''Current Location'' [] =
     (Inr (WithStatus (JObj (fmupd ''trip_plan'' JNull fmempty)) 400),
      [museum_url ''Cairo'', ''https://ipinfo.io''])
   \<and> fst (plan_trip_post_body sample_lib net_no_location [''Cairo''] ''4'' []) =
     Inr (ErrorReply
        ''Invalid start location number. Please enter a valid number or museum name.'' 400)
   \<and> fst (plan_trip_post_body sample_lib net_no_location [''Cairo''] ''x'' []) =
     Inr (ErrorReply
        ''Invalid start location input. Please enter a valid number or museum name.'' 400)
   \<and> fst (plan_trip_post_body sample_lib net_no_location [''Cairo''] ''Current Location'' []) =
     Inr (ErrorReply ''Unable to fetch current location.'' 400)"
  using sample_body_errors(1)[THEN plan_trip_post_error, of sample_restx]
    sample_body_errors(2)[THEN plan_trip_post_error, of sample_restx]
    sample_body_errors(3)[THEN plan_trip_post_error, of sample_restx]
  by (simp add: sample_body_errors)

section \<open>Running the model\<close>

text \<open>A request for the museums of Cairo, starting at the third museum: C first, then
  A and B, which are equally far from C, in the order of the list.\<close>

lemma sample_fetch:
  "fetch_museums_for_cities net_sample [''Cairo''] [] =
     (Inr (map (fmupd ''city'' (JStr ''Cairo'')) sample_museums), [museum_url ''Cairo''])"
  by (simp add: fetch_museums_for_cities_def fetch_museum_data_def requests_get_def
      net_sample_def museum_url_def cleaned_def strip_id_def sample_museums_def museum_at_def
      fmdrop_fmupd)

lemma plan_trip_sample_run:
  "plan_trip_post_body sample_lib net_sample [''Cairo''] ''3'' [] =
     (Inr (TripPlan
        [fmupd ''distance'' (JNum 0) (fmupd ''city'' (JStr ''Cairo'') (museum_at ''C'' 0 1)),
         fmupd ''distance'' (JNum 2) (fmupd ''city'' (JStr ''Cairo'') (museum_at ''A'' 0 3)),
         fmupd ''distance'' (JNum 4) (fmupd ''city'' (JStr ''Cairo'') (museum_at ''B'' 1 0))]),
      [museum_url ''Cairo''])"
  unfolding plan_trip_post_body_def sample_fetch
  by (simp add: resolve_start_def start_by_number_def name_lower_def ascii_lower_def decimal_def
      a_star_search_def a_star_loop.simps a_star_body_def py_min_def Let_def
      museum_key_def museum_point_def getitem_def heuristic_def sample_lib_def taxicab_km_def
      heap_of_def sample_museums_def museum_at_def differ_by_name upt_rec)

text \<open>The same request through the wrapped method: every museum of the plan with the
  fields of the model, the missing image link as \<^verbatim>\<open>None\<close>.\<close>

lemma plan_trip_post_sample_run:
  "plan_trip_post sample_restx sample_lib net_sample [''Cairo''] ''3'' [] =
     (Inr (Payload (JObj (fmupd ''trip_plan'' (JArr
        [JObj (fmupd ''name'' (JStr ''C'') (fmupd ''latitude'' (JNum 0) (fmupd ''longitude'' (JNum 1)
           (fmupd ''city'' (JStr ''Cairo'') (fmupd ''imageUrl'' JNull
           (fmupd ''distance'' (JNum 0) fmempty)))))),
         JObj (fmupd ''name'' (JStr ''A'') (fmupd ''latitude'' (JNum 0) (fmupd ''longitude'' (JNum 3)
           (fmupd ''city'' (JStr ''Cairo'') (fmupd ''imageUrl'' JNull
           (fmupd ''distance'' (JNum 2) fmempty)))))),
         JObj (fmupd ''name'' (JStr ''B'') (fmupd ''latitude'' (JNum 1) (fmupd ''longitude'' (JNum 0)
           (fmupd ''city'' (JStr ''Cairo'') (fmupd ''imageUrl'' JNull
           (fmupd ''distance'' (JNum 4) fmempty))))))]) fmempty))),
      [museum_url ''Cairo''])"
  unfolding plan_trip_post_def plan_trip_sample_run
  by (simp add: returned_def marshal_with_def list_nested_output_def get_value_def
      museum_with_distance_output_def field_output_def sample_restx_def museum_at_def)

end
